theory Spec2Isabelle
  imports Main "HOL-Library.Word"
begin

section \<open>Durations (Go's time.Duration)\<close>

text \<open>
  Go's \<open>time.Duration\<close> is an \<open>int64\<close> count of nanoseconds. The unit constants are the
  ones of Go's \<open>time\<close> package; \<open>MaxTaskDuration\<close> is the constant of
  \<open>upup/pkg/fi/nodeup/command.go\<close>, line 60.
\<close>

type_synonym Duration = "64 word"

definition Nanosecond :: Duration where
  "Nanosecond = 1"

definition Microsecond :: Duration where
  "Microsecond = 1000 * Nanosecond"

definition Millisecond :: Duration where
  "Millisecond = 1000 * Microsecond"

definition Second :: Duration where
  "Second = 1000 * Millisecond"

definition Minute :: Duration where
  "Minute = 60 * Second"



section \<open>Lifecycles, phases and target names\<close>

text \<open>The five lifecycle tags of \<open>fi.Lifecycle\<close>.\<close>

datatype Lifecycle =
    LifecycleSync
  | LifecycleIgnore
  | LifecycleWarnIfInsufficientAccess
  | LifecycleExistsAndValidates
  | LifecycleExistsAndWarnIfChanges

text \<open>
  \<open>Phase\<close> is a string type with three named constants; \<open>ApplyClusterCmd.Run\<close> switches on
  the empty phase, the three constants, and everything else. \<open>PhaseOther s\<close> stands for a
  phase string \<open>s\<close> that is none of these four (Go rejects a switch with two equal constant
  cases, so the four are distinct).
\<close>

datatype Phase =
    PhaseEmpty
  | PhaseNetwork
  | PhaseSecurity
  | PhaseCluster
  | PhaseOther string

text \<open>
  \<open>TargetName\<close> is a plain string compared with four constants; \<open>TargetOther s\<close> stands for
  a string that is none of them.
\<close>

datatype TargetName =
    TargetDirect
  | TargetTerraform
  | TargetCloudformation
  | TargetDryRun
  | TargetOther string

datatype error = Error string

record lifecycles =
  securityLifecycle :: Lifecycle
  networkLifecycle :: Lifecycle
  clusterLifecycle :: Lifecycle

text \<open>
  Lines 182-209 of \<open>ApplyClusterCmd.Run\<close>: the three lifecycles start as \<open>Sync\<close> and the
  switch on the phase overwrites some of them; an unknown phase returns an error.
\<close>

definition phaseLifecycles :: "Phase \<Rightarrow> TargetName \<Rightarrow> error + lifecycles" where
  "phaseLifecycles phase targetName =
     (let l = \<lparr>securityLifecycle = LifecycleSync,
                networkLifecycle = LifecycleSync,
                clusterLifecycle = LifecycleSync\<rparr>
      in case phase of
           PhaseEmpty \<Rightarrow> Inr l
         | PhaseNetwork \<Rightarrow>
             Inr (l\<lparr>securityLifecycle := LifecycleIgnore, clusterLifecycle := LifecycleIgnore\<rparr>)
         | PhaseSecurity \<Rightarrow>
             Inr (l\<lparr>networkLifecycle := LifecycleExistsAndWarnIfChanges,
                    clusterLifecycle := LifecycleIgnore\<rparr>)
         | PhaseCluster \<Rightarrow>
             (if targetName = TargetDryRun
              then Inr (l\<lparr>securityLifecycle := LifecycleExistsAndWarnIfChanges,
                          networkLifecycle := LifecycleExistsAndWarnIfChanges\<rparr>)
              else Inr (l\<lparr>networkLifecycle := LifecycleExistsAndValidates,
                          securityLifecycle := LifecycleExistsAndValidates\<rparr>))
         | PhaseOther s \<Rightarrow> Inl (Error ''unknown phase''))"

text \<open>Lines 182-214: the phase switch, then the override when only the assets are wanted.\<close>

definition builderLifecycles :: "Phase \<Rightarrow> TargetName \<Rightarrow> bool \<Rightarrow> error + lifecycles" where
  "builderLifecycles phase targetName getAssets =
     (case phaseLifecycles phase targetName of
        Inl e \<Rightarrow> Inl e
      | Inr l \<Rightarrow>
          if getAssets
          then Inr (l\<lparr>networkLifecycle := LifecycleIgnore,
                      securityLifecycle := LifecycleIgnore,
                      clusterLifecycle := LifecycleIgnore\<rparr>)
          else Inr l)"

section \<open>The data of an apply run\<close>

datatype CloudProviderID =
    CloudProviderGCE
  | CloudProviderDO
  | CloudProviderAWS
  | CloudProviderALI
  | CloudProviderAzure
  | CloudProviderOpenstack
  | CloudProviderOther string

text \<open>
  The dynamic type of the \<open>fi.Cloud\<close> handle, which the type assertions of \<open>Run\<close>
  (\<open>cloud.(gce.GCECloud)\<close> and the like) inspect; a GCE cloud knows its project. The handle
  of the command is taken not to be nil, as are its cluster and its client set; \<open>OtherCloud\<close>
  is a cloud of any other type.
\<close>

datatype Cloud =
    GCECloud string
  | AWSCloud
  | DOCloud
  | OpenstackCloud
  | ALICloud
  | AzureCloud
  | OtherCloud

text \<open>The fields of the cluster that the control flow of \<open>Run\<close> reads.\<close>

record Cluster =
  Name :: string
  KubernetesVersion :: string
  DNSZone :: string
  CloudProvider :: CloudProviderID
  EncryptionConfig :: "bool option"
  CiliumEnableEncryption :: "bool option"
  SSHKeyName :: "string option"

type_synonym InstanceGroup = string

text \<open>A task map: each task name with the names of the tasks it refers to.\<close>

type_synonym TaskMap = "(string \<times> string list) list"

text \<open>
  Modelled from the spec: the options type of \<open>RunTasks\<close> is not among the sources; the
  options include the worker concurrency and the maximum task duration.
\<close>

record RunTasksOptions =
  optConcurrency :: nat
  optMaxTaskDuration :: Duration

text \<open>
  The back-ends that the two \<open>Run\<close> functions construct: one API target per cloud, the
  Terraform target with the output variables added to it, the CloudFormation target, the
  dry-run target (with \<open>True\<close> when its output is discarded), and for nodeup the local
  target with its cache directory and the cloud-init target.
\<close>

datatype Target =
    GCEAPITarget
  | AWSAPITarget
  | DOAPITarget
  | OpenstackAPITarget
  | ALIAPITarget
  | AzureAPITarget
  | TerraformTarget "string list"
  | CloudformationTarget
  | DryRunTarget bool
  | LocalTarget string
  | CloudInitTarget

text \<open>
  The fields of the command that \<open>Run\<close> reads or writes below; \<open>TaskMap\<close> and \<open>Target\<close>
  are outputs. The flag \<open>DryRun\<close> is a field of the command that \<open>Run\<close> never reads: the
  dry run is decided by the target name.
\<close>

record ApplyClusterCmd =
  Cloud :: Cloud
  Cluster :: Cluster
  InstanceGroups :: "InstanceGroup list option"
  TargetName :: TargetName
  Target :: "Target option"
  DryRun :: bool
  AllowKopsDowngrade :: bool
  RunTasksOptions :: "RunTasksOptions option"
  Phase :: Phase
  GetAssets :: bool
  TaskMap :: TaskMap

text \<open>What reading the kops-version marker of the state store gives (lines 240-260).\<close>

datatype VersionMarker =
    MarkerNotExist
  | MarkerReadError
  | MarkerUnparsable
  | MarkerNewer
  | MarkerNotNewer

text \<open>
  The world of one run: what each call that leaves \<open>Run\<close> answers. Every such call is made
  at most once in a run, apart from the calls per instance group, which are indexed by the
  position of the group, and the calls by name (a secret, an output variable). The cluster
  name, cloud, and lifecycle overrides that the real calls receive are those of the command.
  \<open>FindSecret\<close> says whether the secret exists, \<open>FindSSHPublicKeys\<close> how many keys there
  are; \<open>BuildTasks\<close> and \<open>FindDeletions\<close> give a task map together with their error;
  \<open>validateKopsVersion\<close>, \<open>validateKubernetesVersion\<close> and \<open>addFileAssets\<close> are methods of
  the command whose result alone matters here.
\<close>

record World =
  ListInstanceGroups :: "error + InstanceGroup list"
  PopulateClusterSpec :: "Cluster \<Rightarrow> error + Cluster"
  PopulateInstanceGroupSpec :: "InstanceGroup \<Rightarrow> error + InstanceGroup"
  validateKopsVersion :: "error option"
  validateKubernetesVersion :: "error option"
  BuildVfsPath :: "error option"
  ReadKopsVersionUpdated :: VersionMarker
  DeepValidate :: "error option"
  IsGossipHostname :: "string \<Rightarrow> bool"
  KeyStore :: "error option"
  SSHCredentialStore :: "error option"
  SecretStore :: "error option"
  AddonsList :: "error option"
  FindSecret :: "string \<Rightarrow> error + bool"
  addFileAssets :: "error option"
  FindSSHPublicKeys :: "error + nat"
  AlphaAllowGCE :: bool
  AlphaAllowALI :: bool
  AzureEnabled :: bool
  AccountInfo :: "error option"
  validateDNS :: "error option"
  newNodeUpConfigBuilder :: "error option"
  LoadTemplates :: "error option"
  AddTo :: "error option"
  BuildTasks :: "TaskMap \<times> error option"
  AddOutputVariable :: "string \<Rightarrow> error option"
  FindDeletions :: "TaskMap \<times> error option"
  NewContextErr :: "error option"
  GetACL :: "error option"
  WriteKopsVersion :: "error option"
  WriteConfigDeprecated :: "error option"
  UpdateInstanceGroup :: "nat \<Rightarrow> error option"
  WriteMirror :: "nat \<Rightarrow> error option"
  InitDefaults :: RunTasksOptions
  RunTasks :: "Target \<Rightarrow> TaskMap \<Rightarrow> RunTasksOptions \<Rightarrow> error option"
  precreateDNS :: "error option"
  Finish :: "Target \<Rightarrow> TaskMap \<Rightarrow> error option"

text \<open>
  How a run ends: it returns (\<open>None\<close> is Go's \<open>nil\<close> error), it panics (a failed type
  assertion), or it ends the process (\<open>klog.Exitf\<close>, in nodeup only).
\<close>

datatype outcome =
    Returned "error option"
  | Panicked
  | Exited

section \<open>ApplyClusterCmd.Run, before the tasks are built\<close>

text \<open>Lines 151-161: the instance groups are listed when the command has none.\<close>

definition loadInstanceGroups :: "ApplyClusterCmd \<Rightarrow> World \<Rightarrow> error + InstanceGroup list" where
  "loadInstanceGroups c w =
     (case InstanceGroups c of
        Some gs \<Rightarrow> Inr gs
      | None \<Rightarrow> ListInstanceGroups w)"

text \<open>\<open>upgradeSpecs\<close> (lines 822-838): the cluster is populated, then each group in turn.\<close>

fun populateGroups ::
  "(InstanceGroup \<Rightarrow> error + InstanceGroup) \<Rightarrow> InstanceGroup list \<Rightarrow> error + InstanceGroup list"
where
  "populateGroups f [] = Inr []"
| "populateGroups f (g # gs) =
     (case f g of
        Inl e \<Rightarrow> Inl e
      | Inr g' \<Rightarrow>
          (case populateGroups f gs of
             Inl e \<Rightarrow> Inl e
           | Inr gs' \<Rightarrow> Inr (g' # gs')))"

definition upgradeSpecs ::
  "ApplyClusterCmd \<Rightarrow> World \<Rightarrow> InstanceGroup list \<Rightarrow> error + (Cluster \<times> InstanceGroup list)"
where
  "upgradeSpecs c w gs =
     (case PopulateClusterSpec w (Cluster c) of
        Inl e \<Rightarrow> Inl e
      | Inr fullCluster \<Rightarrow>
          (case populateGroups (PopulateInstanceGroupSpec w) gs of
             Inl e \<Rightarrow> Inl e
           | Inr gs' \<Rightarrow> Inr (fullCluster, gs')))"

text \<open>
  Lines 239-261: unless a downgrade is allowed, the version marker is read; an unparsable or
  newer marker and a read error other than "does not exist" end the run.
\<close>

definition checkKopsVersionUpdated :: "ApplyClusterCmd \<Rightarrow> World \<Rightarrow> error option" where
  "checkKopsVersionUpdated c w =
     (if \<not> AllowKopsDowngrade c then
        (case ReadKopsVersionUpdated w of
           MarkerUnparsable \<Rightarrow> Some (Error ''error parsing last kops version updated'')
         | MarkerNewer \<Rightarrow> Some (Error ''kops version older than last used to update the cluster'')
         | MarkerNotNewer \<Rightarrow> None
         | MarkerNotExist \<Rightarrow> None
         | MarkerReadError \<Rightarrow> Some (Error ''error reading last kops version used to update''))
      else None)"

text \<open>
  Lines 333-358: with encryption configured, the secret must be readable and present.
  \<open>fi.BoolValue\<close> of a nil pointer is false; a nil Cilium spec skips the second check.
\<close>

definition requireSecret :: "World \<Rightarrow> bool \<Rightarrow> string \<Rightarrow> error option" where
  "requireSecret w enabled name =
     (if enabled then
        (case FindSecret w name of
           Inl e \<Rightarrow> Some (Error (''could not load secret '' @ name))
         | Inr found \<Rightarrow>
             if \<not> found then Some (Error (''could not find secret '' @ name)) else None)
      else None)"

text \<open>
  Lines 385-468: the switch on the cloud provider. It gives the project (of a GCE cloud,
  empty otherwise); the type assertions panic on a cloud of another dynamic type.
\<close>

definition checkCloudProvider ::
  "Cloud \<Rightarrow> Cluster \<Rightarrow> World \<Rightarrow> nat \<Rightarrow> outcome + string"
where
  "checkCloudProvider cloud cluster w nkeys =
     (case CloudProvider cluster of
        CloudProviderGCE \<Rightarrow>
          (case cloud of
             GCECloud project \<Rightarrow>
               if \<not> AlphaAllowGCE w
               then Inl (Returned (Some (Error ''GCE support is currently alpha'')))
               else Inr project
           | _ \<Rightarrow> Inl Panicked)
      | CloudProviderDO \<Rightarrow>
          if nkeys = 0 \<and> (SSHKeyName cluster = None \<or> SSHKeyName cluster = Some [])
          then Inl (Returned (Some (Error ''SSH public key must be specified'')))
          else Inr []
      | CloudProviderAWS \<Rightarrow>
          (case cloud of
             AWSCloud \<Rightarrow>
               (case AccountInfo w of
                  Some e \<Rightarrow> Inl (Returned (Some e))
                | None \<Rightarrow>
                    if nkeys = 0 \<and> SSHKeyName cluster = None
                    then Inl (Returned (Some (Error ''SSH public key must be specified'')))
                    else if nkeys > 1
                    then Inl (Returned (Some (Error ''exactly one SSH public key'')))
                    else Inr [])
           | _ \<Rightarrow> Inl Panicked)
      | CloudProviderALI \<Rightarrow>
          if \<not> AlphaAllowALI w
          then Inl (Returned (Some (Error ''aliyun support is currently alpha'')))
          else if nkeys = 0
          then Inl (Returned (Some (Error ''SSH public key must be specified'')))
          else if nkeys \<noteq> 1
          then Inl (Returned (Some (Error ''exactly one SSH public key'')))
          else Inr []
      | CloudProviderAzure \<Rightarrow>
          if \<not> AzureEnabled w
          then Inl (Returned (Some (Error ''azure support is currently alpha'')))
          else if nkeys = 0
          then Inl (Returned (Some (Error ''SSH public key must be specified'')))
          else if nkeys \<noteq> 1
          then Inl (Returned (Some (Error ''exactly one SSH public key'')))
          else Inr []
      | CloudProviderOpenstack \<Rightarrow>
          if nkeys = 0
          then Inl (Returned (Some (Error ''SSH public key must be specified'')))
          else if nkeys \<noteq> 1
          then Inl (Returned (Some (Error ''exactly one SSH public key'')))
          else Inr []
      | CloudProviderOther s \<Rightarrow> Inl (Returned (Some (Error ''unknown CloudProvider''))))"

text \<open>
  Lines 541-657: the second switch on the cloud provider chooses the builders; the GCE case
  asserts the type of the cloud once more, and an unknown provider is an error.
\<close>

definition chooseBuilders :: "Cloud \<Rightarrow> Cluster \<Rightarrow> outcome option" where
  "chooseBuilders cloud cluster =
     (case CloudProvider cluster of
        CloudProviderGCE \<Rightarrow> (case cloud of GCECloud project \<Rightarrow> None | _ \<Rightarrow> Some Panicked)
      | CloudProviderOther s \<Rightarrow> Some (Returned (Some (Error ''unknown cloudprovider'')))
      | _ \<Rightarrow> None)"

text \<open>What the first part of \<open>Run\<close> hands to the rest.\<close>

record prepared =
  preLifecycles :: lifecycles
  preCluster :: Cluster
  preGroups :: "InstanceGroup list"
  preProject :: string

text \<open>Lines 216-358: after the lifecycles, up to the secrets.\<close>

definition validateAll ::
  "ApplyClusterCmd \<Rightarrow> World \<Rightarrow> InstanceGroup list \<Rightarrow> error + (Cluster \<times> InstanceGroup list)"
where
  "validateAll c w gs =
     (case upgradeSpecs c w gs of
        Inl e \<Rightarrow> Inl e
      | Inr (cluster, gs') \<Rightarrow>
          (case validateKopsVersion w of Some e \<Rightarrow> Inl e | None \<Rightarrow>
          (case validateKubernetesVersion w of Some e \<Rightarrow> Inl e | None \<Rightarrow>
          (case BuildVfsPath w of Some e \<Rightarrow> Inl (Error ''error parsing config base'') | None \<Rightarrow>
          (case checkKopsVersionUpdated c w of Some e \<Rightarrow> Inl e | None \<Rightarrow>
          (case DeepValidate w of Some e \<Rightarrow> Inl e | None \<Rightarrow>
           if KubernetesVersion cluster = [] then Inl (Error ''KubernetesVersion not set'')
           else if DNSZone cluster = [] \<and> \<not> IsGossipHostname w (Name cluster)
           then Inl (Error ''DNSZone not set'')
           else
          (case KeyStore w of Some e \<Rightarrow> Inl e | None \<Rightarrow>
          (case SSHCredentialStore w of Some e \<Rightarrow> Inl e | None \<Rightarrow>
          (case SecretStore w of Some e \<Rightarrow> Inl e | None \<Rightarrow>
          (case AddonsList w of Some e \<Rightarrow> Inl (Error ''error fetching addons'') | None \<Rightarrow>
          (case requireSecret w (EncryptionConfig cluster = Some True) ''encryptionconfig'' of
             Some e \<Rightarrow> Inl e | None \<Rightarrow>
          (case requireSecret w (CiliumEnableEncryption cluster = Some True) ''ciliumpassword'' of
             Some e \<Rightarrow> Inl e | None \<Rightarrow>
           Inr (cluster, gs')))))))))))))"

text \<open>Lines 360-658: the assets, the SSH keys, the provider checks and the builders.\<close>

definition prepareBuilders ::
  "ApplyClusterCmd \<Rightarrow> World \<Rightarrow> Cluster \<Rightarrow> outcome + string"
where
  "prepareBuilders c w cluster =
     (case addFileAssets w of Some e \<Rightarrow> Inl (Returned (Some e)) | None \<Rightarrow>
     (case FindSSHPublicKeys w of
        Inl e \<Rightarrow> Inl (Returned (Some (Error ''error retrieving SSH public key'')))
      | Inr nkeys \<Rightarrow>
     (case checkCloudProvider (Cloud c) cluster w nkeys of
        Inl oc \<Rightarrow> Inl oc
      | Inr project \<Rightarrow>
     (case (if IsGossipHostname w (Name cluster) then None else validateDNS w) of
        Some e \<Rightarrow> Inl (Returned (Some e)) | None \<Rightarrow>
     (case newNodeUpConfigBuilder w of Some e \<Rightarrow> Inl (Returned (Some e)) | None \<Rightarrow>
     (case LoadTemplates w of
        Some e \<Rightarrow> Inl (Returned (Some (Error ''error loading templates''))) | None \<Rightarrow>
     (case AddTo w of Some e \<Rightarrow> Inl (Returned (Some e)) | None \<Rightarrow>
     (case chooseBuilders (Cloud c) cluster of
        Some oc \<Rightarrow> Inl oc
      | None \<Rightarrow> Inr project))))))))"

text \<open>
  Lines 150-658 together. The guess of the volume-plugin directory for Flatcar images (lines
  163-174) and a failure to find the channel (lines 176-180, a warning) change no branch
  taken below and are left out.
\<close>

definition preflight :: "ApplyClusterCmd \<Rightarrow> World \<Rightarrow> outcome + prepared" where
  "preflight c w =
     (case loadInstanceGroups c w of
        Inl e \<Rightarrow> Inl (Returned (Some e))
      | Inr gs \<Rightarrow>
     (case builderLifecycles (Phase c) (TargetName c) (GetAssets c) of
        Inl e \<Rightarrow> Inl (Returned (Some e))
      | Inr lc \<Rightarrow>
     (case validateAll c w gs of
        Inl e \<Rightarrow> Inl (Returned (Some e))
      | Inr (cluster, gs') \<Rightarrow>
     (case prepareBuilders c w cluster of
        Inl oc \<Rightarrow> Inl oc
      | Inr project \<Rightarrow>
          Inr \<lparr>preLifecycles = lc, preCluster = cluster,
               preGroups = gs', preProject = project\<rparr>))))"

section \<open>ApplyClusterCmd.Run, from the task map to Finish\<close>

text \<open>
  What a run does to the outside, in the order in which it does it. A write is recorded when
  it is attempted, and \<open>RunTasks\<close> and \<open>Finish\<close> with the target and the task map they work on.
\<close>

datatype event =
    EvBuildTasks
  | EvFindDeletions
  | EvNewContext Target bool TaskMap
  | EvWriteKopsVersion
  | EvWriteClusterCompleted
  | EvUpdateInstanceGroup InstanceGroup
  | EvWriteMirror InstanceGroup
  | EvRunTasks Target TaskMap RunTasksOptions
  | EvPrecreateDNS
  | EvWarning string
  | EvFinish Target TaskMap
  | EvContextClose

record selection =
  selTarget :: Target
  selCheckExisting :: bool
  selDryRun :: bool
  selShouldPrecreateDNS :: bool

text \<open>
  The values of \<open>checkExisting\<close>, \<open>dryRun\<close> and \<open>shouldPrecreateDNS\<close> before the switch on
  the target name (lines 364, 665, 666), with the target chosen.
\<close>

definition selected :: "Target \<Rightarrow> selection" where
  "selected t =
     \<lparr>selTarget = t, selCheckExisting = True, selDryRun = False, selShouldPrecreateDNS = True\<rparr>"

text \<open>Lines 697-701: the project variable is added for a non-empty project only.\<close>

definition addProjectVariable :: "World \<Rightarrow> string \<Rightarrow> error option" where
  "addProjectVariable w project =
     (if project \<noteq> [] then AddOutputVariable w ''project'' else None)"

text \<open>Lines 664-741: the switch on the target name.\<close>

definition selectTarget :: "ApplyClusterCmd \<Rightarrow> World \<Rightarrow> prepared \<Rightarrow> outcome + selection" where
  "selectTarget c w p =
     (case TargetName c of
        TargetDirect \<Rightarrow>
          (case CloudProvider (preCluster p) of
             CloudProviderGCE \<Rightarrow>
               (case Cloud c of GCECloud project \<Rightarrow> Inr (selected GCEAPITarget) | _ \<Rightarrow> Inl Panicked)
           | CloudProviderAWS \<Rightarrow>
               (case Cloud c of AWSCloud \<Rightarrow> Inr (selected AWSAPITarget) | _ \<Rightarrow> Inl Panicked)
           | CloudProviderDO \<Rightarrow>
               (case Cloud c of DOCloud \<Rightarrow> Inr (selected DOAPITarget) | _ \<Rightarrow> Inl Panicked)
           | CloudProviderOpenstack \<Rightarrow>
               (case Cloud c of
                  OpenstackCloud \<Rightarrow> Inr (selected OpenstackAPITarget) | _ \<Rightarrow> Inl Panicked)
           | CloudProviderALI \<Rightarrow>
               (case Cloud c of ALICloud \<Rightarrow> Inr (selected ALIAPITarget) | _ \<Rightarrow> Inl Panicked)
           | CloudProviderAzure \<Rightarrow>
               (case Cloud c of AzureCloud \<Rightarrow> Inr (selected AzureAPITarget) | _ \<Rightarrow> Inl Panicked)
           | CloudProviderOther s \<Rightarrow>
               Inl (Returned (Some (Error ''direct configuration not supported''))))
      | TargetTerraform \<Rightarrow>
          (case AddOutputVariable w ''region'' of
             Some e \<Rightarrow> Inl (Returned (Some e))
           | None \<Rightarrow>
          (case addProjectVariable w (preProject p) of
             Some e \<Rightarrow> Inl (Returned (Some e))
           | None \<Rightarrow>
          (case AddOutputVariable w ''cluster_name'' of
             Some e \<Rightarrow> Inl (Returned (Some e))
           | None \<Rightarrow>
               Inr ((selected (TerraformTarget
                      (''region'' # (if preProject p \<noteq> [] then [''project''] else [])
                         @ [''cluster_name''])))
                    \<lparr>selCheckExisting := False, selShouldPrecreateDNS := False\<rparr>))))
      | TargetCloudformation \<Rightarrow>
          Inr ((selected CloudformationTarget)
               \<lparr>selCheckExisting := False, selShouldPrecreateDNS := False\<rparr>)
      | TargetDryRun \<Rightarrow>
          Inr ((selected (DryRunTarget (GetAssets c)))
               \<lparr>selDryRun := True, selShouldPrecreateDNS := False\<rparr>)
      | TargetOther s \<Rightarrow> Inl (Returned (Some (Error ''unsupported target type''))))"

text \<open>
  Modelled from the spec: the type of the execution context is not among the sources. The
  context holds the Target and the full task map (and the cloud handle and the stores, which
  play no part here).
\<close>

record Context =
  ctxTarget :: Target
  ctxCheckExisting :: bool
  ctxTasks :: TaskMap

text \<open>
  Modelled from the spec: \<open>fi.NewContext\<close> is not among the sources. It creates the context
  of a run from the Target, the flag and the task map it is given; creating it can fail.
\<close>

definition NewContext :: "World \<Rightarrow> Target \<Rightarrow> bool \<Rightarrow> TaskMap \<Rightarrow> error + Context" where
  "NewContext w target checkExisting tasks =
     (case NewContextErr w of
        Some e \<Rightarrow> Inl e
      | None \<Rightarrow> Inr \<lparr>ctxTarget = target, ctxCheckExisting = checkExisting, ctxTasks = tasks\<rparr>)"

text \<open>Lines 774-785: each group is updated in the registry, then written to the mirror.\<close>

fun writeInstanceGroups :: "World \<Rightarrow> nat \<Rightarrow> InstanceGroup list \<Rightarrow> error option \<times> event list" where
  "writeInstanceGroups w i [] = (None, [])"
| "writeInstanceGroups w i (g # gs) =
     (case UpdateInstanceGroup w i of
        Some e \<Rightarrow>
          (Some (Error ''error writing InstanceGroup to registry''), [EvUpdateInstanceGroup g])
      | None \<Rightarrow>
          (case WriteMirror w i of
             Some e \<Rightarrow>
               (Some (Error ''error writing instance group spec to mirror''),
                [EvUpdateInstanceGroup g, EvWriteMirror g])
           | None \<Rightarrow>
               (case writeInstanceGroups w (Suc i) gs of
                  (r, evs) \<Rightarrow> (r, EvUpdateInstanceGroup g # EvWriteMirror g # evs))))"

text \<open>Lines 758-785: the body of the guarded block that writes to the state store.\<close>

definition writeState :: "World \<Rightarrow> InstanceGroup list \<Rightarrow> error option \<times> event list" where
  "writeState w gs =
     (case GetACL w of
        Some e \<Rightarrow> (Some e, [])
      | None \<Rightarrow>
          (case WriteKopsVersion w of
             Some e \<Rightarrow> (Some (Error ''error writing kops version''), [EvWriteKopsVersion])
           | None \<Rightarrow>
               (case WriteConfigDeprecated w of
                  Some e \<Rightarrow>
                    (Some (Error ''error writing completed cluster spec''),
                     [EvWriteKopsVersion, EvWriteClusterCompleted])
                | None \<Rightarrow>
                    (case writeInstanceGroups w 0 gs of
                       (r, evs) \<Rightarrow> (r, EvWriteKopsVersion # EvWriteClusterCompleted # evs)))))"

text \<open>Lines 800-808: DNS pre-creation; its error is logged as a warning and dropped.\<close>

definition precreate :: "World \<Rightarrow> prepared \<Rightarrow> selection \<Rightarrow> event list" where
  "precreate w p s =
     (let shouldPrecreateDNS =
            (if IsGossipHostname w (Name (preCluster p)) then False else selShouldPrecreateDNS s)
      in if shouldPrecreateDNS \<and> clusterLifecycle (preLifecycles p) \<noteq> LifecycleIgnore
         then (case precreateDNS w of
                 Some e \<Rightarrow> [EvPrecreateDNS, EvWarning ''unable to pre-create DNS records'']
               | None \<Rightarrow> [EvPrecreateDNS])
         else [])"

text \<open>Lines 788-793: the options of the command, or the defaults when it has none.\<close>

definition taskOptions :: "ApplyClusterCmd \<Rightarrow> World \<Rightarrow> RunTasksOptions" where
  "taskOptions c w = (case RunTasksOptions c of Some opts \<Rightarrow> opts | None \<Rightarrow> InitDefaults w)"

text \<open>Lines 795-818: the tasks, DNS pre-creation, and Finish.\<close>

definition runTasksAndFinish ::
  "ApplyClusterCmd \<Rightarrow> World \<Rightarrow> prepared \<Rightarrow> selection \<Rightarrow> Context \<Rightarrow> TaskMap
     \<Rightarrow> outcome \<times> event list"
where
  "runTasksAndFinish c w p s ctx tasks =
     (let options = taskOptions c w;
          ran = EvRunTasks (ctxTarget ctx) (ctxTasks ctx) options
      in case RunTasks w (ctxTarget ctx) (ctxTasks ctx) options of
           Some e \<Rightarrow> (Returned (Some (Error ''error running tasks'')), [ran])
         | None \<Rightarrow>
             (case Finish w (selTarget s) tasks of
                Some e \<Rightarrow>
                  (Returned (Some (Error ''error closing target'')),
                   ran # precreate w p s @ [EvFinish (selTarget s) tasks])
              | None \<Rightarrow>
                  (Returned None, ran # precreate w p s @ [EvFinish (selTarget s) tasks])))"

text \<open>
  Lines 751-818: the context is created and its Close deferred, so that Close is the last
  thing done on every path from there; the state store is written unless the run is a dry
  run or the cluster lifecycle is Ignore.
\<close>

definition withContext ::
  "ApplyClusterCmd \<Rightarrow> World \<Rightarrow> prepared \<Rightarrow> selection \<Rightarrow> TaskMap \<Rightarrow> outcome \<times> event list"
where
  "withContext c w p s tasks =
     (case NewContext w (selTarget s) (selCheckExisting s) tasks of
        Inl e \<Rightarrow> (Returned (Some (Error ''error building context'')), [])
      | Inr ctx \<Rightarrow>
          (case (if \<not> selDryRun s \<and> clusterLifecycle (preLifecycles p) \<noteq> LifecycleIgnore
                 then (case writeState w (preGroups p) of
                         (Some e, evs) \<Rightarrow> (Returned (Some e), evs)
                       | (None, evs) \<Rightarrow>
                           (case runTasksAndFinish c w p s ctx tasks of
                              (oc, evs') \<Rightarrow> (oc, evs @ evs')))
                 else runTasksAndFinish c w p s ctx tasks) of
             (oc, evs) \<Rightarrow>
               (oc, EvNewContext (selTarget s) (selCheckExisting s) tasks
                      # evs @ [EvContextClose])))"

text \<open>
  What a run leaves: how it ended, what it did, and the \<open>TaskMap\<close> and \<open>Target\<close> fields of
  the command afterwards.
\<close>

record run =
  ended :: outcome
  trace :: "event list"
  finalTaskMap :: TaskMap
  finalTarget :: "Target option"

text \<open>
  Lines 664-818: the target is chosen and stored in the command; with \<open>checkExisting\<close> the
  task map of the command is replaced by what \<open>FindDeletions\<close> returns (also when it fails).
\<close>

definition afterBuild :: "ApplyClusterCmd \<Rightarrow> World \<Rightarrow> prepared \<Rightarrow> TaskMap \<Rightarrow> run" where
  "afterBuild c w p tasks =
     (case selectTarget c w p of
        Inl oc \<Rightarrow> \<lparr>ended = oc, trace = [], finalTaskMap = tasks, finalTarget = Target c\<rparr>
      | Inr s \<Rightarrow>
          if selCheckExisting s then
            (case FindDeletions w of
               (tasks', Some e) \<Rightarrow>
                 \<lparr>ended = Returned (Some (Error ''error finding deletions'')),
                  trace = [EvFindDeletions],
                  finalTaskMap = tasks', finalTarget = Some (selTarget s)\<rparr>
             | (tasks', None) \<Rightarrow>
                 (case withContext c w p s tasks' of
                    (oc, evs) \<Rightarrow>
                      \<lparr>ended = oc, trace = EvFindDeletions # evs,
                       finalTaskMap = tasks', finalTarget = Some (selTarget s)\<rparr>))
          else
            (case withContext c w p s tasks of
               (oc, evs) \<Rightarrow>
                 \<lparr>ended = oc, trace = evs,
                  finalTaskMap = tasks, finalTarget = Some (selTarget s)\<rparr>))"

text \<open>
  \<open>ApplyClusterCmd.Run\<close> (lines 150-819). \<open>BuildTasks\<close> assigns the task map of the command
  also when it fails.
\<close>

definition Run :: "ApplyClusterCmd \<Rightarrow> World \<Rightarrow> run" where
  "Run c w =
     (case preflight c w of
        Inl oc \<Rightarrow> \<lparr>ended = oc, trace = [], finalTaskMap = TaskMap c, finalTarget = Target c\<rparr>
      | Inr p \<Rightarrow>
          (case BuildTasks w of
             (tasks, Some e) \<Rightarrow>
               \<lparr>ended = Returned (Some (Error ''error building tasks'')),
                trace = [EvBuildTasks], finalTaskMap = tasks, finalTarget = Target c\<rparr>
           | (tasks, None) \<Rightarrow>
               (let r = afterBuild c w p tasks
                in r\<lparr>trace := EvBuildTasks # trace r\<rparr>)))"

section \<open>Reading a trace\<close>

text \<open>Kinds of events, for stating what happens before or after what.\<close>

fun isRunTasks :: "event \<Rightarrow> bool" where
  "isRunTasks (EvRunTasks t m opts) = True"
| "isRunTasks e = False"

fun isFinish :: "event \<Rightarrow> bool" where
  "isFinish (EvFinish t m) = True"
| "isFinish e = False"

fun isNewContext :: "event \<Rightarrow> bool" where
  "isNewContext (EvNewContext t ce m) = True"
| "isNewContext e = False"

text \<open>The writes to the cluster state store of lines 762-785.\<close>

fun isStateWrite :: "event \<Rightarrow> bool" where
  "isStateWrite EvWriteKopsVersion = True"
| "isStateWrite EvWriteClusterCompleted = True"
| "isStateWrite (EvUpdateInstanceGroup g) = True"
| "isStateWrite (EvWriteMirror g) = True"
| "isStateWrite e = False"

text \<open>The targets that an event names.\<close>

fun targetsOf :: "event \<Rightarrow> Target list" where
  "targetsOf (EvNewContext t ce m) = [t]"
| "targetsOf (EvRunTasks t m opts) = [t]"
| "targetsOf (EvFinish t m) = [t]"
| "targetsOf e = []"

text \<open>The kind of back-end a target is, by the name that selects it in \<open>cloudup\<close>.\<close>

fun backend :: "Target \<Rightarrow> TargetName" where
  "backend (TerraformTarget vs) = TargetTerraform"
| "backend CloudformationTarget = TargetCloudformation"
| "backend (DryRunTarget d) = TargetDryRun"
| "backend (LocalTarget d) = TargetOther ''local''"
| "backend CloudInitTarget = TargetOther ''cloudinit''"
| "backend t = TargetDirect"

section \<open>NodeUpCommand.Run\<close>

record NodeUpCommand =
  CacheDir :: string
  ConfigLocation :: string
  nodeupTarget :: string

text \<open>
  The fields of the nodeup configuration and of the cluster that \<open>NodeUpCommand.Run\<close> reads:
  whether a config server is set, the three locations, the instance-group name, the assets
  and the number of images for the architecture, and the lifecycle-hook flag.
\<close>

record NodeupConfig =
  ConfigServer :: bool
  ConfigBase :: string
  ClusterLocation :: string
  InstanceGroupName :: string
  Assets :: "string list"
  Images :: nat
  EnableLifecycleHook :: bool

record NodeCluster =
  nodeCloudProvider :: CloudProviderID
  nodeSecretStore :: string
  nodeKeyStore :: string

text \<open>The world of a nodeup run: what each call that leaves \<open>Run\<close> answers.\<close>

record NodeWorld =
  ReadConfig :: "error option"
  ParseConfig :: "error + NodeupConfig"
  getNodeConfigFromServer :: "error + bool"
  NodeBuildVfsPath :: "string \<Rightarrow> error option"
  ReadCluster :: "error option"
  ParseCluster :: "error + NodeCluster"
  ReadAuxConfig :: "error option"
  ParseAuxConfig :: "error option"
  AuxConfigHashMatches :: bool
  evaluateSpec :: "error option"
  FindArchitecture :: "error option"
  FindDistribution :: "error option"
  AssetStoreAdd :: "string \<Rightarrow> error option"
  FindRegion :: "error option"
  NewAWSCloud :: "error option"
  ModelContextInit :: "error option"
  ReadInstanceID :: "error option"
  getAWSConfigurationMode :: "error option"
  loadKernelModules :: "error option"
  LoaderBuild :: "error + TaskMap"
  NodeNewContextErr :: "error option"
  NodeInitDefaults :: RunTasksOptions
  NodeRunTasks :: "Target \<Rightarrow> TaskMap \<Rightarrow> RunTasksOptions \<Rightarrow> error option"
  NodeFinish :: "Target \<Rightarrow> TaskMap \<Rightarrow> error option"
  completeWarmingLifecycleAction :: "error option"

text \<open>Lines 76-92: the configuration must be located, read and parsed; a cache is needed.\<close>

definition loadConfig :: "NodeUpCommand \<Rightarrow> NodeWorld \<Rightarrow> error + NodeupConfig" where
  "loadConfig c w =
     (if ConfigLocation c \<noteq> [] then
        (case ReadConfig w of
           Some e \<Rightarrow> Inl (Error ''error loading configuration'')
         | None \<Rightarrow>
             (case ParseConfig w of
                Inl e \<Rightarrow> Inl (Error ''error parsing configuration'')
              | Inr cfg \<Rightarrow>
                  if CacheDir c = [] then Inl (Error ''CacheDir is required'') else Inr cfg))
      else Inl (Error ''ConfigLocation is required''))"

text \<open>Lines 112-116: the location up to its last slash, or all of it when it has none.\<close>

definition basePath :: "string \<Rightarrow> string" where
  "basePath s =
     (if CHR ''/'' \<in> set s
      then rev (tl (dropWhile (\<lambda>ch. ch \<noteq> CHR ''/'') (rev s)))
      else s)"

text \<open>
  Lines 94-125. The result says whether a node configuration came from the config server
  and whether a config base was built; with a config server there is no config base.
\<close>

definition locateConfig :: "NodeWorld \<Rightarrow> NodeupConfig \<Rightarrow> error + (bool \<times> bool)" where
  "locateConfig w cfg =
     (if ConfigServer cfg then
        (case getNodeConfigFromServer w of
           Inl e \<Rightarrow> Inl e
         | Inr hasNodeConfig \<Rightarrow> Inr (hasNodeConfig, False))
      else if ConfigBase cfg \<noteq> [] then
        (case NodeBuildVfsPath w (ConfigBase cfg) of
           Some e \<Rightarrow> Inl (Error ''cannot parse ConfigBase'')
         | None \<Rightarrow> Inr (False, True))
      else if ClusterLocation cfg \<noteq> [] then
        (case NodeBuildVfsPath w (basePath (ClusterLocation cfg)) of
           Some e \<Rightarrow> Inl (Error ''cannot parse inferred ConfigBase'')
         | None \<Rightarrow> Inr (False, True))
      else Inl (Error ''ConfigBase or ConfigServer is required''))"

text \<open>
  Lines 127-155: the cluster comes from the node configuration or from a file; joining a
  path to a config base that was never built is a call on a nil interface, a panic.
\<close>

definition loadCluster :: "NodeWorld \<Rightarrow> NodeupConfig \<Rightarrow> bool \<Rightarrow> bool \<Rightarrow> outcome + NodeCluster" where
  "loadCluster w cfg hasNodeConfig hasConfigBase =
     (if hasNodeConfig then
        (case ParseCluster w of
           Inl e \<Rightarrow> Inl (Returned (Some (Error ''error parsing Cluster config response'')))
         | Inr cluster \<Rightarrow> Inr cluster)
      else
        (case (if ClusterLocation cfg \<noteq> [] then
                 (case NodeBuildVfsPath w (ClusterLocation cfg) of
                    Some e \<Rightarrow> Some (Returned (Some (Error ''error parsing ClusterLocation'')))
                  | None \<Rightarrow> None)
               else if hasConfigBase then None else Some Panicked) of
           Some oc \<Rightarrow> Inl oc
         | None \<Rightarrow>
             (case ReadCluster w of
                Some e \<Rightarrow> Inl (Returned (Some (Error ''error loading Cluster'')))
              | None \<Rightarrow>
                  (case ParseCluster w of
                     Inl e \<Rightarrow> Inl (Returned (Some (Error ''error parsing Cluster'')))
                   | Inr cluster \<Rightarrow> Inr cluster))))"

text \<open>Lines 157-183: the auxiliary configuration and its hash.\<close>

definition loadAuxConfig :: "NodeWorld \<Rightarrow> NodeupConfig \<Rightarrow> bool \<Rightarrow> bool \<Rightarrow> outcome option" where
  "loadAuxConfig w cfg hasNodeConfig hasConfigBase =
     (case (if hasNodeConfig then
              (case ParseAuxConfig w of
                 Some e \<Rightarrow> Some (Returned (Some (Error ''error parsing AuxConfig config response'')))
               | None \<Rightarrow> None)
            else if InstanceGroupName cfg \<noteq> [] then
              (if \<not> hasConfigBase then Some Panicked
               else (case ReadAuxConfig w of
                       Some e \<Rightarrow> Some (Returned (Some (Error ''error loading AuxConfig'')))
                     | None \<Rightarrow>
                         (case ParseAuxConfig w of
                            Some e \<Rightarrow> Some (Returned (Some (Error ''error parsing AuxConfig'')))
                          | None \<Rightarrow> None)))
            else Some (Returned (Some (Error ''no instance group defined in nodeup config'')))) of
        Some oc \<Rightarrow> Some oc
      | None \<Rightarrow>
          if \<not> AuxConfigHashMatches w
          then Some (Returned (Some (Error ''auxiliary config hash mismatch'')))
          else None)"

text \<open>Lines 202-207: the assets are added to the store one by one.\<close>

fun addAssets :: "NodeWorld \<Rightarrow> string list \<Rightarrow> error option" where
  "addAssets w [] = None"
| "addAssets w (a # as) =
     (case AssetStoreAdd w a of
        Some e \<Rightarrow> Some (Error ''error adding asset'')
      | None \<Rightarrow> addAssets w as)"

text \<open>Lines 185-221: the spec, the platform, the assets and, on AWS, the cloud.\<close>

definition nodePlatform :: "NodeWorld \<Rightarrow> NodeupConfig \<Rightarrow> NodeCluster \<Rightarrow> error option" where
  "nodePlatform w cfg cluster =
     (case evaluateSpec w of Some e \<Rightarrow> Some e | None \<Rightarrow>
     (case FindArchitecture w of
        Some e \<Rightarrow> Some (Error ''error determining OS architecture'') | None \<Rightarrow>
     (case FindDistribution w of
        Some e \<Rightarrow> Some (Error ''error determining OS distribution'') | None \<Rightarrow>
     (case addAssets w (Assets cfg) of Some e \<Rightarrow> Some e | None \<Rightarrow>
      if nodeCloudProvider cluster = CloudProviderAWS then
        (case FindRegion w of Some e \<Rightarrow> Some e | None \<Rightarrow> NewAWSCloud w)
      else None))))"

text \<open>Lines 234-285: the stores, the model context, the instance and the kernel modules.\<close>

definition nodeStores :: "NodeWorld \<Rightarrow> NodeCluster \<Rightarrow> bool \<Rightarrow> error option" where
  "nodeStores w cluster hasNodeConfig =
     (case (if hasNodeConfig then None
            else if nodeSecretStore cluster \<noteq> [] then
              (case NodeBuildVfsPath w (nodeSecretStore cluster) of
                 Some e \<Rightarrow> Some (Error ''error building secret store path'') | None \<Rightarrow> None)
            else Some (Error ''SecretStore not set'')) of
        Some e \<Rightarrow> Some e
      | None \<Rightarrow>
     (case (if hasNodeConfig then None
            else if nodeKeyStore cluster \<noteq> [] then
              (case NodeBuildVfsPath w (nodeKeyStore cluster) of
                 Some e \<Rightarrow> Some (Error ''error building key store path'') | None \<Rightarrow> None)
            else Some (Error ''KeyStore not set'')) of
        Some e \<Rightarrow> Some e
      | None \<Rightarrow>
     (case ModelContextInit w of Some e \<Rightarrow> Some e | None \<Rightarrow>
     (case (if nodeCloudProvider cluster = CloudProviderAWS then
              (case ReadInstanceID w of
                 Some e \<Rightarrow> Some (Error ''error reading instance-id from AWS metadata'')
               | None \<Rightarrow> getAWSConfigurationMode w)
            else None) of
        Some e \<Rightarrow> Some e
      | None \<Rightarrow> loadKernelModules w))))"

text \<open>\<open>strconv.Itoa\<close> on an index: the decimal digits.\<close>

function itoa :: "nat \<Rightarrow> string" where
  "itoa n = (if n < 10 then [char_of (48 + n)] else itoa (n div 10) @ [char_of (48 + n mod 10)])"
  by pat_completeness auto
termination
  by (relation "measure id") auto

declare itoa.simps [simp del]

text \<open>Assigning to a key of the task map: the entry is replaced or added.\<close>

fun setTask :: "string \<Rightarrow> string list \<Rightarrow> TaskMap \<Rightarrow> TaskMap" where
  "setTask k v [] = [(k, v)]"
| "setTask k v ((k', v') # m) = (if k' = k then (k, v) # m else (k', v') # setTask k v m)"

text \<open>Lines 328-334: one image-loading task per image, named by its index.\<close>

fun addLoadImageTasks :: "nat \<Rightarrow> nat \<Rightarrow> TaskMap \<Rightarrow> TaskMap" where
  "addLoadImageTasks i 0 m = m"
| "addLoadImageTasks i (Suc n) m =
     addLoadImageTasks (Suc i) n (setTask (''LoadImage.'' @ itoa i) [] m)"

text \<open>Lines 73-334: everything up to the complete task map.\<close>

definition nodePrepare ::
  "NodeUpCommand \<Rightarrow> NodeWorld \<Rightarrow> outcome + (NodeupConfig \<times> NodeCluster \<times> TaskMap)"
where
  "nodePrepare c w =
     (case loadConfig c w of
        Inl e \<Rightarrow> Inl (Returned (Some e))
      | Inr cfg \<Rightarrow>
     (case locateConfig w cfg of
        Inl e \<Rightarrow> Inl (Returned (Some e))
      | Inr (hasNodeConfig, hasConfigBase) \<Rightarrow>
     (case loadCluster w cfg hasNodeConfig hasConfigBase of
        Inl oc \<Rightarrow> Inl oc
      | Inr cluster \<Rightarrow>
     (case loadAuxConfig w cfg hasNodeConfig hasConfigBase of
        Some oc \<Rightarrow> Inl oc
      | None \<Rightarrow>
     (case nodePlatform w cfg cluster of
        Some e \<Rightarrow> Inl (Returned (Some e))
      | None \<Rightarrow>
     (case nodeStores w cluster hasNodeConfig of
        Some e \<Rightarrow> Inl (Returned (Some e))
      | None \<Rightarrow>
     (case LoaderBuild w of
        Inl e \<Rightarrow> Inl (Returned (Some (Error ''error building loader'')))
      | Inr tasks \<Rightarrow> Inr (cfg, cluster, addLoadImageTasks 0 (Images cfg) tasks))))))))"

text \<open>Lines 337-353: the switch on the target name of nodeup.\<close>

definition nodeSelectTarget :: "NodeUpCommand \<Rightarrow> error + (Target \<times> bool)" where
  "nodeSelectTarget c =
     (if nodeupTarget c = ''direct'' then Inr (LocalTarget (CacheDir c), True)
      else if nodeupTarget c = ''dryrun'' then Inr (DryRunTarget False, True)
      else if nodeupTarget c = ''cloudinit'' then Inr (CloudInitTarget, False)
      else Inl (Error ''unsupported target type''))"

text \<open>
  Modelled from the spec: \<open>fi.NewContext\<close> is not among the sources; as above, the context
  holds the Target and the task map it is created with.
\<close>

definition NodeNewContext :: "NodeWorld \<Rightarrow> Target \<Rightarrow> bool \<Rightarrow> TaskMap \<Rightarrow> error + Context" where
  "NodeNewContext w target checkExisting tasks =
     (case NodeNewContextErr w of
        Some e \<Rightarrow> Inl e
      | None \<Rightarrow> Inr \<lparr>ctxTarget = target, ctxCheckExisting = checkExisting, ctxTasks = tasks\<rparr>)"

text \<open>
  Lines 374-382: the lifecycle action is completed on AWS when the hook is enabled. This is
  the only part of the run after which the deferred Close of the context runs.
\<close>

definition completeLifecycle :: "NodeWorld \<Rightarrow> NodeupConfig \<Rightarrow> NodeCluster \<Rightarrow> error option" where
  "completeLifecycle w cfg cluster =
     (if EnableLifecycleHook cfg \<and> nodeCloudProvider cluster = CloudProviderAWS then
        (case completeWarmingLifecycleAction w of
           Some e \<Rightarrow> Some (Error ''failed to complete lifecylce action'')
         | None \<Rightarrow> None)
      else None)"

text \<open>
  \<open>NodeUpCommand.Run\<close> (lines 73-383). A failure to build the context, to run the tasks or
  to finish the target is logged with \<open>klog.Exitf\<close>, which ends the process: nothing is
  returned and the deferred Close does not run.
\<close>

definition NodeUpRun :: "NodeUpCommand \<Rightarrow> NodeWorld \<Rightarrow> outcome \<times> event list" where
  "NodeUpRun c w =
     (case nodePrepare c w of
        Inl oc \<Rightarrow> (oc, [])
      | Inr (cfg, cluster, tasks) \<Rightarrow>
     (case nodeSelectTarget c of
        Inl e \<Rightarrow> (Returned (Some e), [EvBuildTasks])
      | Inr (target, checkExisting) \<Rightarrow>
     (case NodeNewContext w target checkExisting tasks of
        Inl e \<Rightarrow> (Exited, [EvBuildTasks])
      | Inr ctx \<Rightarrow>
     (let options = NodeInitDefaults w;
          created = [EvBuildTasks, EvNewContext target checkExisting tasks,
                     EvRunTasks (ctxTarget ctx) (ctxTasks ctx) options]
      in case NodeRunTasks w (ctxTarget ctx) (ctxTasks ctx) options of
           Some e \<Rightarrow> (Exited, created)
         | None \<Rightarrow>
             (case NodeFinish w target tasks of
                Some e \<Rightarrow> (Exited, created @ [EvFinish target tasks])
              | None \<Rightarrow>
                  (Returned (completeLifecycle w cfg cluster),
                   created @ [EvFinish target tasks, EvContextClose]))))))"

section \<open>The Dependency Resolver\<close>

text \<open>
  The engine that orders the tasks (the Resolver and the executor behind \<open>RunTasks\<close>) is not
  among the sources; only its callers are. The definitions of this section follow the
  description of the Resolver. A task map gives, for each task name, the names of the tasks
  it depends on: the references found in its fields and the dependencies it declares.
\<close>

text \<open>
  Modelled from the spec: the build-time errors of the missing Resolver, which are duplicate
  task names, unresolved references and dependency cycles (the last names the tasks that
  could not be ordered).
\<close>

datatype BuildError =
    DuplicateTask string
  | UnresolvedReference string string
  | DependencyCycle "string list"

text \<open>
  Modelled from the spec: the check of the missing Resolver that task names are unique;
  it gives a name that is registered twice.
\<close>

fun findDuplicate :: "string list \<Rightarrow> string option" where
  "findDuplicate [] = None"
| "findDuplicate (n # ns) = (if n \<in> set ns then Some n else findDuplicate ns)"

text \<open>
  Modelled from the spec: the check of the missing Resolver that a task refers only to tasks
  of the same collection; it gives a task and a reference of it that is not a task.
\<close>

fun findUnresolved :: "string list \<Rightarrow> TaskMap \<Rightarrow> (string \<times> string) option" where
  "findUnresolved names [] = None"
| "findUnresolved names ((n, ds) # ts) =
     (case filter (\<lambda>d. d \<notin> set names) ds of
        [] \<Rightarrow> findUnresolved names ts
      | d # _ \<Rightarrow> Some (n, d))"

text \<open>
  Modelled from the spec: in the missing Resolver, a task can be ordered once all the tasks
  it depends on have been.
\<close>

definition isReady :: "string list \<Rightarrow> string \<times> string list \<Rightarrow> bool" where
  "isReady done t = (set (snd t) \<subseteq> set done)"

text \<open>
  Modelled from the spec: the ordering loop of the missing Resolver. The tasks that are ready
  are appended to the order, and the loop goes on with the others; when tasks remain and none
  is ready, the graph cannot be fully ordered, and the remaining tasks are named in the error.
\<close>

function orderTasks :: "string list \<Rightarrow> TaskMap \<Rightarrow> BuildError + string list" where
  "orderTasks done remaining =
     (if remaining = [] then Inr done
      else if filter (isReady done) remaining = []
      then Inl (DependencyCycle (map fst remaining))
      else orderTasks (done @ map fst (filter (isReady done) remaining))
             (filter (\<lambda>t. \<not> isReady done t) remaining))"
  by pat_completeness auto
termination
proof (relation "measure (\<lambda>(done, remaining). length remaining)", goal_cases)
  case 1
  show ?case by simp
next
  case (2 "done" remaining)
  then have "filter (isReady done) remaining \<noteq> []" by simp
  with sum_length_filter_compl [of "isReady done" remaining] show ?case
    by (cases "filter (isReady done) remaining") auto
qed

declare orderTasks.simps [simp del]

text \<open>
  Modelled from the spec: graph construction in the missing Resolver, from the flat task
  map: the two checks, then the order.
\<close>

definition resolve :: "TaskMap \<Rightarrow> BuildError + string list" where
  "resolve tasks =
     (case findDuplicate (map fst tasks) of
        Some n \<Rightarrow> Inl (DuplicateTask n)
      | None \<Rightarrow>
          (case findUnresolved (map fst tasks) tasks of
             Some (n, d) \<Rightarrow> Inl (UnresolvedReference n d)
           | None \<Rightarrow> orderTasks [] tasks))"

text \<open>
  Modelled from the spec: the missing engine builds the graph before it executes anything. A
  build-time error is returned as it is, with no task handed to the target, hence before
  any change is made; otherwise the tasks are executed in the order of the Resolver, each
  making its changes (\<open>render\<close>).
\<close>

definition runEngine :: "TaskMap \<Rightarrow> (string \<Rightarrow> 'change list) \<Rightarrow> BuildError + 'change list" where
  "runEngine tasks render =
     (case resolve tasks of
        Inl e \<Rightarrow> Inl e
      | Inr order \<Rightarrow> Inr (concat (map render order)))"

text \<open>
  The edges of the dependency graph, from a dependant to what it depends on, and the
  statement that in an order \<open>d\<close> comes before \<open>n\<close>.
\<close>

definition edges :: "TaskMap \<Rightarrow> (string \<times> string) set" where
  "edges tasks = {(n, d). \<exists>ds. (n, ds) \<in> set tasks \<and> d \<in> set ds}"

definition appearsBefore :: "string list \<Rightarrow> string \<Rightarrow> string \<Rightarrow> bool" where
  "appearsBefore order d n = (n \<in> set order \<and> d \<in> set (takeWhile (\<lambda>x. x \<noteq> n) order))"

text \<open>
  Two task sets: an instance in a subnet in a VPC, and the same with the VPC referring back
  to the instance.
\<close>

definition exampleTasks :: TaskMap where
  "exampleTasks = [(''Instance'', [''Subnet'']), (''VPC'', []), (''Subnet'', [''VPC''])]"

definition cyclicTasks :: TaskMap where
  "cyclicTasks = [(''Instance'', [''Subnet'']), (''VPC'', [''Instance'']), (''Subnet'', [''VPC''])]"

section \<open>The retry loop of a task\<close>







section \<open>Two concrete runs\<close>

text \<open>
  A small AWS cluster applied directly, in a world where every call succeeds, and a nodeup
  run of the same kind. The properties below are tried on them and on variations of them.
\<close>

definition exampleCluster :: Cluster where
  "exampleCluster =
     \<lparr>Name = ''minimal.example.com'', KubernetesVersion = ''1.21.0'',
      DNSZone = ''example.com'', CloudProvider = CloudProviderAWS,
      EncryptionConfig = None, CiliumEnableEncryption = None, SSHKeyName = None\<rparr>"

definition exampleCmd :: ApplyClusterCmd where
  "exampleCmd =
     \<lparr>Cloud = AWSCloud, Cluster = exampleCluster, InstanceGroups = Some [''nodes''],
      TargetName = TargetDirect, Target = None, DryRun = False, AllowKopsDowngrade = False,
      RunTasksOptions = None, Phase = PhaseEmpty, GetAssets = False, TaskMap = []\<rparr>"

definition exampleWorld :: World where
  "exampleWorld =
     \<lparr>ListInstanceGroups = Inr [''nodes''],
      PopulateClusterSpec = (\<lambda>cluster. Inr cluster),
      PopulateInstanceGroupSpec = (\<lambda>g. Inr g),
      validateKopsVersion = None,
      validateKubernetesVersion = None,
      BuildVfsPath = None,
      ReadKopsVersionUpdated = MarkerNotExist,
      DeepValidate = None,
      IsGossipHostname = (\<lambda>name. False),
      KeyStore = None,
      SSHCredentialStore = None,
      SecretStore = None,
      AddonsList = None,
      FindSecret = (\<lambda>name. Inr True),
      addFileAssets = None,
      FindSSHPublicKeys = Inr 1,
      AlphaAllowGCE = False,
      AlphaAllowALI = False,
      AzureEnabled = False,
      AccountInfo = None,
      validateDNS = None,
      newNodeUpConfigBuilder = None,
      LoadTemplates = None,
      AddTo = None,
      BuildTasks = ([(''VPC'', []), (''Subnet'', [''VPC''])], None),
      AddOutputVariable = (\<lambda>name. None),
      FindDeletions = ([(''VPC'', []), (''Subnet'', [''VPC'']), (''Subnet2'', [''VPC''])], None),
      NewContextErr = None,
      GetACL = None,
      WriteKopsVersion = None,
      WriteConfigDeprecated = None,
      UpdateInstanceGroup = (\<lambda>i. None),
      WriteMirror = (\<lambda>i. None),
      InitDefaults = \<lparr>optConcurrency = 4, optMaxTaskDuration = 10 * Minute\<rparr>,
      RunTasks = (\<lambda>t m opts. None),
      precreateDNS = None,
      Finish = (\<lambda>t m. None)\<rparr>"

definition exampleNodeCmd :: NodeUpCommand where
  "exampleNodeCmd =
     \<lparr>CacheDir = ''/var/cache/nodeup'', ConfigLocation = ''/opt/kops/conf/kube_env.yaml'',
      nodeupTarget = ''direct''\<rparr>"

definition exampleNodeWorld :: NodeWorld where
  "exampleNodeWorld =
     \<lparr>ReadConfig = None,
      ParseConfig = Inr \<lparr>ConfigServer = False, ConfigBase = ''memfs://clusters/minimal'',
                         ClusterLocation = [], InstanceGroupName = ''nodes'',
                         Assets = [''kubelet''], Images = 1, EnableLifecycleHook = False\<rparr>,
      getNodeConfigFromServer = Inr True,
      NodeBuildVfsPath = (\<lambda>path. None),
      ReadCluster = None,
      ParseCluster = Inr \<lparr>nodeCloudProvider = CloudProviderAWS,
                          nodeSecretStore = ''memfs://clusters/minimal/secrets'',
                          nodeKeyStore = ''memfs://clusters/minimal/pki''\<rparr>,
      ReadAuxConfig = None,
      ParseAuxConfig = None,
      AuxConfigHashMatches = True,
      evaluateSpec = None,
      FindArchitecture = None,
      FindDistribution = None,
      AssetStoreAdd = (\<lambda>asset. None),
      FindRegion = None,
      NewAWSCloud = None,
      ModelContextInit = None,
      ReadInstanceID = None,
      getAWSConfigurationMode = None,
      loadKernelModules = None,
      LoaderBuild = Inr [(''kubelet'', [])],
      NodeNewContextErr = None,
      NodeInitDefaults = \<lparr>optConcurrency = 4, optMaxTaskDuration = 10 * Minute\<rparr>,
      NodeRunTasks = (\<lambda>t m opts. None),
      NodeFinish = (\<lambda>t m. None),
      completeWarmingLifecycleAction = None\<rparr>"

text \<open>What the first part of the example run hands on.\<close>

definition examplePrepared :: prepared where
  "examplePrepared =
     \<lparr>preLifecycles = \<lparr>securityLifecycle = LifecycleSync, networkLifecycle = LifecycleSync,
                        clusterLifecycle = LifecycleSync\<rparr>,
      preCluster = exampleCluster, preGroups = [''nodes''], preProject = []\<rparr>"

section \<open>Properties\<close>

subsection \<open>The paths through ApplyClusterCmd.Run\<close>

text \<open>
  A run that stops before the tasks are built has failed, and has done nothing yet. The
  lifecycles it would have used are those of \<open>builderLifecycles\<close>; the target chosen is of
  the kind that the target name asks for, and decides the three flags.
\<close>

lemma checkCloudProvider_Inl:
  "checkCloudProvider cloud cluster w n = Inl oc \<Longrightarrow> oc \<noteq> Returned None \<and> oc \<noteq> Exited"
  by (auto simp: checkCloudProvider_def split: CloudProviderID.splits Cloud.splits option.splits if_splits)

lemma chooseBuilders_Some:
  "chooseBuilders cloud cluster = Some oc \<Longrightarrow> oc \<noteq> Returned None \<and> oc \<noteq> Exited"
  by (auto simp: chooseBuilders_def split: CloudProviderID.splits Cloud.splits)

lemma prepareBuilders_Inl:
  "prepareBuilders c w cluster = Inl oc \<Longrightarrow> oc \<noteq> Returned None \<and> oc \<noteq> Exited"
  by (auto simp: prepareBuilders_def split: option.splits sum.splits if_splits
      dest: checkCloudProvider_Inl chooseBuilders_Some)

lemma preflight_Inl:
  "preflight c w = Inl oc \<Longrightarrow> oc \<noteq> Returned None \<and> oc \<noteq> Exited"
  by (auto simp: preflight_def split: sum.splits prod.splits dest: prepareBuilders_Inl)

lemma preflight_lifecycles:
  "preflight c w = Inr p \<Longrightarrow>
     builderLifecycles (Phase c) (TargetName c) (GetAssets c) = Inr (preLifecycles p)"
  by (auto simp: preflight_def split: sum.splits prod.splits)

lemma selectTarget_Inr:
  "selectTarget c w p = Inr s \<Longrightarrow>
     backend (selTarget s) = TargetName c
     \<and> selCheckExisting s = (TargetName c = TargetDirect \<or> TargetName c = TargetDryRun)
     \<and> selDryRun s = (TargetName c = TargetDryRun)
     \<and> selShouldPrecreateDNS s = (TargetName c = TargetDirect)"
  by (auto simp: selectTarget_def selected_def
      split: TargetName.splits CloudProviderID.splits Cloud.splits option.splits)

lemma selectTarget_Inl:
  "selectTarget c w p = Inl oc \<Longrightarrow> oc \<noteq> Returned None \<and> oc \<noteq> Exited"
  by (auto simp: selectTarget_def selected_def
      split: TargetName.splits CloudProviderID.splits Cloud.splits option.splits)

lemma writeInstanceGroups_events:
  "writeInstanceGroups w i gs = (r, evs) \<Longrightarrow> e \<in> set evs \<Longrightarrow> isStateWrite e"
  by (induction gs arbitrary: i r evs) (auto split: option.splits prod.splits)

lemma writeState_events:
  "writeState w gs = (r, evs) \<Longrightarrow> e \<in> set evs \<Longrightarrow> isStateWrite e"
  by (auto simp: writeState_def split: option.splits prod.splits dest: writeInstanceGroups_events)


text \<open>
  The four ways through the part of the run that holds a context, and the eight ways through
  the whole run, each with what it returns and the trace it leaves.
\<close>

lemma withContext_cases [case_names contextFailed writeFailed tasksFailed finished]:
  obtains
    e where "NewContextErr w = Some e"
      "withContext c w p s m = (Returned (Some (Error ''error building context'')), [])"
  | e ws where "NewContextErr w = None"
      "\<not> selDryRun s" "clusterLifecycle (preLifecycles p) \<noteq> LifecycleIgnore"
      "writeState w (preGroups p) = (Some e, ws)"
      "withContext c w p s m =
         (Returned (Some e),
          EvNewContext (selTarget s) (selCheckExisting s) m # ws @ [EvContextClose])"
  | ws e where "NewContextErr w = None"
      "if \<not> selDryRun s \<and> clusterLifecycle (preLifecycles p) \<noteq> LifecycleIgnore
       then writeState w (preGroups p) = (None, ws) else ws = []"
      "RunTasks w (selTarget s) m (taskOptions c w) = Some e"
      "withContext c w p s m =
         (Returned (Some (Error ''error running tasks'')),
          EvNewContext (selTarget s) (selCheckExisting s) m # ws
            @ [EvRunTasks (selTarget s) m (taskOptions c w), EvContextClose])"
  | ws where "NewContextErr w = None"
      "if \<not> selDryRun s \<and> clusterLifecycle (preLifecycles p) \<noteq> LifecycleIgnore
       then writeState w (preGroups p) = (None, ws) else ws = []"
      "RunTasks w (selTarget s) m (taskOptions c w) = None"
      "withContext c w p s m =
         (Returned (case Finish w (selTarget s) m of
                      Some e \<Rightarrow> Some (Error ''error closing target'') | None \<Rightarrow> None),
          EvNewContext (selTarget s) (selCheckExisting s) m # ws
            @ EvRunTasks (selTarget s) m (taskOptions c w) # precreate w p s
            @ [EvFinish (selTarget s) m, EvContextClose])"
proof (cases "NewContextErr w")
  case (Some e)
  then show ?thesis using that(1) [of e] by (simp add: withContext_def NewContext_def)
next
  case None
  define g where "g = (\<not> selDryRun s \<and> clusterLifecycle (preLifecycles p) \<noteq> LifecycleIgnore)"
  obtain wr ws0 where ws0: "writeState w (preGroups p) = (wr, ws0)"
    by (cases "writeState w (preGroups p)")
  show ?thesis
  proof (cases "g \<and> wr \<noteq> None")
    case True
    then obtain e where "wr = Some e" by auto
    with True None ws0 show ?thesis
      using that(2) [of e ws0] by (simp add: withContext_def NewContext_def g_def)
  next
    case False
    define ws where "ws = (if g then ws0 else [])"
    have wsif: "if \<not> selDryRun s \<and> clusterLifecycle (preLifecycles p) \<noteq> LifecycleIgnore
       then writeState w (preGroups p) = (None, ws) else ws = []"
      using False ws0 by (auto simp: ws_def g_def)
    show ?thesis
    proof (cases "RunTasks w (selTarget s) m (taskOptions c w)")
      case (Some e)
      show ?thesis
        using that(3) [of ws e] None Some wsif
        by (auto simp: withContext_def NewContext_def runTasksAndFinish_def Let_def
            split: if_splits)
    next
      case rn: None
      show ?thesis
        using that(4) [of ws] None rn wsif
        by (auto simp: withContext_def NewContext_def runTasksAndFinish_def Let_def
            split: if_splits option.splits)
    qed
  qed
qed


lemma Run_cases [case_names early buildFailed noTarget deletionsFailed contextFailed
    writeFailed tasksFailed finished]:
  obtains
    oc where "preflight c w = Inl oc"
      "Run c w = \<lparr>ended = oc, trace = [], finalTaskMap = TaskMap c, finalTarget = Target c\<rparr>"
  | p tasks e where "preflight c w = Inr p" "BuildTasks w = (tasks, Some e)"
      "Run c w =
         \<lparr>ended = Returned (Some (Error ''error building tasks'')), trace = [EvBuildTasks],
          finalTaskMap = tasks, finalTarget = Target c\<rparr>"
  | p tasks oc where "preflight c w = Inr p" "BuildTasks w = (tasks, None)"
      "selectTarget c w p = Inl oc"
      "Run c w =
         \<lparr>ended = oc, trace = [EvBuildTasks], finalTaskMap = tasks, finalTarget = Target c\<rparr>"
  | p tasks s m e where "preflight c w = Inr p" "BuildTasks w = (tasks, None)"
      "selectTarget c w p = Inr s" "selCheckExisting s" "FindDeletions w = (m, Some e)"
      "Run c w =
         \<lparr>ended = Returned (Some (Error ''error finding deletions'')),
          trace = [EvBuildTasks, EvFindDeletions],
          finalTaskMap = m, finalTarget = Some (selTarget s)\<rparr>"
  | p tasks s m fd e where "preflight c w = Inr p" "BuildTasks w = (tasks, None)"
      "selectTarget c w p = Inr s"
      "if selCheckExisting s then FindDeletions w = (m, None) \<and> fd = [EvFindDeletions]
       else m = tasks \<and> fd = []"
      "NewContextErr w = Some e"
      "Run c w =
         \<lparr>ended = Returned (Some (Error ''error building context'')),
          trace = EvBuildTasks # fd, finalTaskMap = m, finalTarget = Some (selTarget s)\<rparr>"
  | p tasks s m fd e ws where "preflight c w = Inr p" "BuildTasks w = (tasks, None)"
      "selectTarget c w p = Inr s"
      "if selCheckExisting s then FindDeletions w = (m, None) \<and> fd = [EvFindDeletions]
       else m = tasks \<and> fd = []"
      "NewContextErr w = None"
      "\<not> selDryRun s" "clusterLifecycle (preLifecycles p) \<noteq> LifecycleIgnore"
      "writeState w (preGroups p) = (Some e, ws)"
      "Run c w =
         \<lparr>ended = Returned (Some e),
          trace = EvBuildTasks # fd @ EvNewContext (selTarget s) (selCheckExisting s) m # ws
                    @ [EvContextClose],
          finalTaskMap = m, finalTarget = Some (selTarget s)\<rparr>"
  | p tasks s m fd ws e where "preflight c w = Inr p" "BuildTasks w = (tasks, None)"
      "selectTarget c w p = Inr s"
      "if selCheckExisting s then FindDeletions w = (m, None) \<and> fd = [EvFindDeletions]
       else m = tasks \<and> fd = []"
      "NewContextErr w = None"
      "if \<not> selDryRun s \<and> clusterLifecycle (preLifecycles p) \<noteq> LifecycleIgnore
       then writeState w (preGroups p) = (None, ws) else ws = []"
      "RunTasks w (selTarget s) m (taskOptions c w) = Some e"
      "Run c w =
         \<lparr>ended = Returned (Some (Error ''error running tasks'')),
          trace = EvBuildTasks # fd @ EvNewContext (selTarget s) (selCheckExisting s) m # ws
                    @ [EvRunTasks (selTarget s) m (taskOptions c w), EvContextClose],
          finalTaskMap = m, finalTarget = Some (selTarget s)\<rparr>"
  | p tasks s m fd ws where "preflight c w = Inr p" "BuildTasks w = (tasks, None)"
      "selectTarget c w p = Inr s"
      "if selCheckExisting s then FindDeletions w = (m, None) \<and> fd = [EvFindDeletions]
       else m = tasks \<and> fd = []"
      "NewContextErr w = None"
      "if \<not> selDryRun s \<and> clusterLifecycle (preLifecycles p) \<noteq> LifecycleIgnore
       then writeState w (preGroups p) = (None, ws) else ws = []"
      "RunTasks w (selTarget s) m (taskOptions c w) = None"
      "Run c w =
         \<lparr>ended = Returned (case Finish w (selTarget s) m of
                               Some e \<Rightarrow> Some (Error ''error closing target'') | None \<Rightarrow> None),
          trace = EvBuildTasks # fd @ EvNewContext (selTarget s) (selCheckExisting s) m # ws
                    @ EvRunTasks (selTarget s) m (taskOptions c w) # precreate w p s
                    @ [EvFinish (selTarget s) m, EvContextClose],
          finalTaskMap = m, finalTarget = Some (selTarget s)\<rparr>"
proof (cases "preflight c w")
  case (Inl oc)
  then show ?thesis using that(1) [of oc] by (simp add: Run_def)
next
  case (Inr p)
  obtain tasks be where bt: "BuildTasks w = (tasks, be)" by (cases "BuildTasks w")
  show ?thesis
  proof (cases be)
    case (Some e)
    with Inr bt show ?thesis using that(2) [of p tasks e] by (simp add: Run_def)
  next
    case None
    note bt = bt [unfolded None]
    show ?thesis
    proof (cases "selectTarget c w p")
      case (Inl oc)
      with Inr bt show ?thesis
        using that(3) [of p tasks oc] by (simp add: Run_def afterBuild_def)
    next
      case sel: (Inr s)
      obtain dm de where fdel: "FindDeletions w = (dm, de)" by (cases "FindDeletions w")
      show ?thesis
      proof (cases "selCheckExisting s \<and> de \<noteq> None")
        case True
        then obtain e where "de = Some e" by auto
        with True Inr bt sel fdel show ?thesis
          using that(4) [of p tasks s dm e] by (simp add: Run_def afterBuild_def)
      next
        case False
        define m where "m = (if selCheckExisting s then dm else tasks)"
        define fd where "fd = (if selCheckExisting s then [EvFindDeletions] else [])"
        have mfd: "if selCheckExisting s then FindDeletions w = (m, None) \<and> fd = [EvFindDeletions]
                   else m = tasks \<and> fd = []"
          using False fdel by (auto simp: m_def fd_def)
        have run: "Run c w =
            (case withContext c w p s m of
               (oc, evs) \<Rightarrow> \<lparr>ended = oc, trace = EvBuildTasks # fd @ evs,
                              finalTaskMap = m, finalTarget = Some (selTarget s)\<rparr>)"
          using False Inr bt sel fdel
          by (auto simp: Run_def afterBuild_def m_def fd_def Let_def split: prod.splits)
        show ?thesis
        proof (cases rule: withContext_cases [of w c p s m])
          case (contextFailed e)
          then show ?thesis
            using that(5) [of p tasks s m fd e] Inr bt sel mfd run by simp
        next
          case (writeFailed e ws)
          then show ?thesis
            using that(6) [of p tasks s m fd e ws] Inr bt sel mfd run by simp
        next
          case (tasksFailed ws e)
          then show ?thesis
            using that(7) [of p tasks s m fd ws e] Inr bt sel mfd run by simp
        next
          case (finished ws)
          then show ?thesis
            using that(8) [of p tasks s m fd ws] Inr bt sel mfd run by simp
        qed
      qed
    qed
  qed
qed


subsection \<open>Kinds of events on each path\<close>

text \<open>
  The writes to the state store are events of their own kind, and so are those of DNS
  pre-creation; a stretch of the trace that holds none of the events looked for can be
  skipped.
\<close>

lemma stateWrite_kinds:
  "isStateWrite e \<Longrightarrow>
     \<not> isRunTasks e \<and> \<not> isFinish e \<and> \<not> isNewContext e \<and> targetsOf e = []
     \<and> e \<noteq> EvContextClose \<and> e \<noteq> EvPrecreateDNS \<and> e \<noteq> EvFindDeletions \<and> e \<noteq> EvBuildTasks"
  by (cases e) auto

lemma guarded_writes:
  assumes "if g then writeState w gs = (r, ws) else ws = []"
  shows "\<forall>e\<in>set ws. isStateWrite e" and "\<forall>e\<in>set ws. \<not> isRunTasks e"
    and "\<forall>e\<in>set ws. \<not> isFinish e" and "\<forall>e\<in>set ws. \<not> isNewContext e"
    and "\<forall>e\<in>set ws. targetsOf e = []" and "EvContextClose \<notin> set ws"
    and "EvPrecreateDNS \<notin> set ws" and "EvFindDeletions \<notin> set ws" and "ws \<noteq> [] \<Longrightarrow> g"
proof -
  show w: "\<forall>e\<in>set ws. isStateWrite e"
    using assms writeState_events [of w gs r ws] by (auto split: if_splits)
  then show "\<forall>e\<in>set ws. \<not> isRunTasks e" "\<forall>e\<in>set ws. \<not> isFinish e"
    "\<forall>e\<in>set ws. \<not> isNewContext e" "\<forall>e\<in>set ws. targetsOf e = []"
    "EvContextClose \<notin> set ws" "EvPrecreateDNS \<notin> set ws" "EvFindDeletions \<notin> set ws"
    using stateWrite_kinds by blast+
  show "ws \<noteq> [] \<Longrightarrow> g" using assms by (auto split: if_splits)
qed

lemma precreate_kinds:
  "\<forall>e\<in>set (precreate w p s). \<not> isStateWrite e" "\<forall>e\<in>set (precreate w p s). \<not> isRunTasks e"
  "\<forall>e\<in>set (precreate w p s). \<not> isFinish e" "\<forall>e\<in>set (precreate w p s). \<not> isNewContext e"
  "\<forall>e\<in>set (precreate w p s). targetsOf e = []" "EvContextClose \<notin> set (precreate w p s)"
  "EvFindDeletions \<notin> set (precreate w p s)"
  by (auto simp: precreate_def Let_def split: option.splits)

lemma dropWhile_all: "\<forall>e\<in>set xs. P e \<Longrightarrow> dropWhile P (xs @ ys) = dropWhile P ys"
  by (induction xs) auto

lemma takeWhile_all: "\<forall>e\<in>set xs. P e \<Longrightarrow> takeWhile P (xs @ ys) = xs @ takeWhile P ys"
  by (induction xs) auto




lemma deletions_flag:
  assumes "selectTarget c w p = Inr s"
    and "if selCheckExisting s then FindDeletions w = (m, None) \<and> fd = [EvFindDeletions]
         else m = tasks \<and> fd = []"
  shows "fd = (if TargetName c = TargetDirect \<or> TargetName c = TargetDryRun
               then [EvFindDeletions] else [])"
    and "m = (if TargetName c = TargetDirect \<or> TargetName c = TargetDryRun
              then fst (FindDeletions w) else tasks)"
  using assms selectTarget_Inr [OF assms(1)] by (auto split: if_splits)

subsection \<open>What DNS pre-creation answers does not matter\<close>

lemmas case_congs = sum.case_cong_weak option.case_cong_weak if_weak_cong
  prod.case_cong_weak VersionMarker.case_cong_weak CloudProviderID.case_cong_weak
  Cloud.case_cong_weak TargetName.case_cong_weak

lemma loadInstanceGroups_precreateDNS: "loadInstanceGroups c (w\<lparr>precreateDNS := r\<rparr>) = loadInstanceGroups c w"
  by (simp add: loadInstanceGroups_def cong del: case_congs)

lemma upgradeSpecs_precreateDNS: "upgradeSpecs c (w\<lparr>precreateDNS := r\<rparr>) gs = upgradeSpecs c w gs"
  by (simp add: upgradeSpecs_def cong del: case_congs)

lemma checkKopsVersionUpdated_precreateDNS: "checkKopsVersionUpdated c (w\<lparr>precreateDNS := r\<rparr>) = checkKopsVersionUpdated c w"
  by (simp add: checkKopsVersionUpdated_def cong del: case_congs)

lemma requireSecret_precreateDNS: "requireSecret (w\<lparr>precreateDNS := r\<rparr>) b n = requireSecret w b n"
  by (simp add: requireSecret_def cong del: case_congs)

lemma checkCloudProvider_precreateDNS: "checkCloudProvider cl cluster (w\<lparr>precreateDNS := r\<rparr>) n = checkCloudProvider cl cluster w n"
  by (simp add: checkCloudProvider_def cong del: case_congs)

lemma validateAll_precreateDNS: "validateAll c (w\<lparr>precreateDNS := r\<rparr>) gs = validateAll c w gs"
  by (simp add: validateAll_def upgradeSpecs_precreateDNS checkKopsVersionUpdated_precreateDNS requireSecret_precreateDNS cong del: case_congs)

lemma prepareBuilders_precreateDNS: "prepareBuilders c (w\<lparr>precreateDNS := r\<rparr>) cluster = prepareBuilders c w cluster"
  by (simp add: prepareBuilders_def checkCloudProvider_precreateDNS cong del: case_congs)

lemma preflight_precreateDNS: "preflight c (w\<lparr>precreateDNS := r\<rparr>) = preflight c w"
  by (simp add: preflight_def loadInstanceGroups_precreateDNS validateAll_precreateDNS prepareBuilders_precreateDNS cong del: case_congs)


lemma selectTarget_precreateDNS: "selectTarget c (w\<lparr>precreateDNS := r\<rparr>) p = selectTarget c w p"
  by (simp add: selectTarget_def addProjectVariable_def cong del: case_congs)

lemma writeInstanceGroups_precreateDNS: "writeInstanceGroups (w\<lparr>precreateDNS := r\<rparr>) i gs = writeInstanceGroups w i gs"
  by (induction gs arbitrary: i) (simp_all cong del: case_congs)

lemma writeState_precreateDNS: "writeState (w\<lparr>precreateDNS := r\<rparr>) gs = writeState w gs"
  by (simp add: writeState_def writeInstanceGroups_precreateDNS cong del: case_congs)

lemma runTasksAndFinish_precreateDNS:
  "fst (runTasksAndFinish c (w\<lparr>precreateDNS := r\<rparr>) p s ctx m) = fst (runTasksAndFinish c w p s ctx m)"
  by (simp add: runTasksAndFinish_def taskOptions_def Let_def split: option.splits)

lemma withContext_precreateDNS:
  "fst (withContext c (w\<lparr>precreateDNS := r\<rparr>) p s m) = fst (withContext c w p s m)"
  by (simp add: withContext_def NewContext_def writeState_precreateDNS runTasksAndFinish_precreateDNS case_prod_beta
      split: sum.splits option.splits)

lemma afterBuild_precreateDNS:
  "ended (afterBuild c (w\<lparr>precreateDNS := r\<rparr>) p m) = ended (afterBuild c w p m)"
  by (simp add: afterBuild_def selectTarget_precreateDNS withContext_precreateDNS case_prod_beta split: sum.splits option.splits)

lemma Run_precreateDNS:
  "ended (Run c (w\<lparr>precreateDNS := r\<rparr>)) = ended (Run c w)"
  by (simp add: Run_def preflight_precreateDNS afterBuild_precreateDNS Let_def case_prod_beta split: sum.splits option.splits)


lemma precreate_attempted:
  "EvPrecreateDNS \<in> set (precreate w p s) \<longleftrightarrow>
     selShouldPrecreateDNS s \<and> \<not> IsGossipHostname w (Name (preCluster p))
     \<and> clusterLifecycle (preLifecycles p) \<noteq> LifecycleIgnore"
  by (auto simp: precreate_def split: option.splits)

lemma precreate_shape:
  "precreate w p s = [] \<or> precreate w p s = [EvPrecreateDNS]
   \<or> (precreateDNS w \<noteq> None
       \<and> precreate w p s = [EvPrecreateDNS, EvWarning ''unable to pre-create DNS records''])"
  by (auto simp: precreate_def split: option.splits)

subsection \<open>The paths through NodeUpCommand.Run\<close>

lemma selectTarget_names:
  "selectTarget c w p = Inr s \<Longrightarrow>
     TargetName c \<in> {TargetDirect, TargetTerraform, TargetCloudformation, TargetDryRun}"
  by (auto simp: selectTarget_def split: TargetName.splits)


lemma loadCluster_Inl:
  "loadCluster w cfg a b = Inl oc \<Longrightarrow> oc \<noteq> Returned None \<and> oc \<noteq> Exited"
  by (auto simp: loadCluster_def split: if_splits option.splits sum.splits)

lemma loadAuxConfig_Some:
  "loadAuxConfig w cfg a b = Some oc \<Longrightarrow> oc \<noteq> Returned None \<and> oc \<noteq> Exited"
  by (auto simp: loadAuxConfig_def split: if_splits option.splits)

lemma nodePrepare_Inl:
  "nodePrepare c w = Inl oc \<Longrightarrow> oc \<noteq> Returned None \<and> oc \<noteq> Exited"
  by (auto simp: nodePrepare_def split: sum.splits prod.splits option.splits
      dest: loadCluster_Inl loadAuxConfig_Some)



lemma NodeUpRun_cases [case_names prepareFailed noTarget contextFailed tasksFailed
    finishFailed finished]:
  obtains
    oc where "nodePrepare n v = Inl oc" "NodeUpRun n v = (oc, [])"
  | cfg cluster tasks e where "nodePrepare n v = Inr (cfg, cluster, tasks)"
      "nodeSelectTarget n = Inl e" "NodeUpRun n v = (Returned (Some e), [EvBuildTasks])"
  | cfg cluster tasks t ce e where "nodePrepare n v = Inr (cfg, cluster, tasks)"
      "nodeSelectTarget n = Inr (t, ce)" "NodeNewContextErr v = Some e"
      "NodeUpRun n v = (Exited, [EvBuildTasks])"
  | cfg cluster tasks t ce e where "nodePrepare n v = Inr (cfg, cluster, tasks)"
      "nodeSelectTarget n = Inr (t, ce)" "NodeNewContextErr v = None"
      "NodeRunTasks v t tasks (NodeInitDefaults v) = Some e"
      "NodeUpRun n v =
         (Exited, [EvBuildTasks, EvNewContext t ce tasks,
                   EvRunTasks t tasks (NodeInitDefaults v)])"
  | cfg cluster tasks t ce e where "nodePrepare n v = Inr (cfg, cluster, tasks)"
      "nodeSelectTarget n = Inr (t, ce)" "NodeNewContextErr v = None"
      "NodeRunTasks v t tasks (NodeInitDefaults v) = None"
      "NodeFinish v t tasks = Some e"
      "NodeUpRun n v =
         (Exited, [EvBuildTasks, EvNewContext t ce tasks,
                   EvRunTasks t tasks (NodeInitDefaults v), EvFinish t tasks])"
  | cfg cluster tasks t ce where "nodePrepare n v = Inr (cfg, cluster, tasks)"
      "nodeSelectTarget n = Inr (t, ce)" "NodeNewContextErr v = None"
      "NodeRunTasks v t tasks (NodeInitDefaults v) = None"
      "NodeFinish v t tasks = None"
      "NodeUpRun n v =
         (Returned (completeLifecycle v cfg cluster),
          [EvBuildTasks, EvNewContext t ce tasks,
           EvRunTasks t tasks (NodeInitDefaults v), EvFinish t tasks, EvContextClose])"
proof (cases "nodePrepare n v")
  case (Inl oc)
  then show ?thesis using that(1) [of oc] by (simp add: NodeUpRun_def)
next
  case (Inr x)
  then obtain cfg cluster tasks where prep: "nodePrepare n v = Inr (cfg, cluster, tasks)"
    by (cases x) auto
  show ?thesis
  proof (cases "nodeSelectTarget n")
    case (Inl e)
    with prep show ?thesis using that(2) [of cfg cluster tasks e] by (simp add: NodeUpRun_def)
  next
    case (Inr y)
    then obtain t ce where sel: "nodeSelectTarget n = Inr (t, ce)" by (cases y) auto
    show ?thesis
    proof (cases "NodeNewContextErr v")
      case (Some e)
      with prep sel show ?thesis
        using that(3) [of cfg cluster tasks t ce e]
        by (simp add: NodeUpRun_def NodeNewContext_def)
    next
      case None
      show ?thesis
      proof (cases "NodeRunTasks v t tasks (NodeInitDefaults v)")
        case (Some e)
        with prep sel None show ?thesis
          using that(4) [of cfg cluster tasks t ce e]
          by (simp add: NodeUpRun_def NodeNewContext_def Let_def)
      next
        case rn: None
        show ?thesis
        proof (cases "NodeFinish v t tasks")
          case (Some e)
          with prep sel None rn show ?thesis
            using that(5) [of cfg cluster tasks t ce e]
            by (simp add: NodeUpRun_def NodeNewContext_def Let_def)
        next
          case fn: None
          with prep sel None rn show ?thesis
            using that(6) [of cfg cluster tasks t ce]
            by (simp add: NodeUpRun_def NodeNewContext_def Let_def)
        qed
      qed
    qed
  qed
qed

subsection \<open>The concrete runs, evaluated\<close>

lemmas preflight_defs = preflight_def loadInstanceGroups_def builderLifecycles_def
  phaseLifecycles_def validateAll_def upgradeSpecs_def checkKopsVersionUpdated_def
  requireSecret_def prepareBuilders_def checkCloudProvider_def chooseBuilders_def

lemmas run_defs = Run_def afterBuild_def withContext_def runTasksAndFinish_def NewContext_def
  writeState_def precreate_def taskOptions_def selectTarget_def selected_def
  addProjectVariable_def

lemma preflight_example:
  "preflight (exampleCmd\<lparr>TargetName := tn, Phase := PhaseEmpty\<rparr>) exampleWorld =
     Inr \<lparr>preLifecycles = \<lparr>securityLifecycle = LifecycleSync, networkLifecycle = LifecycleSync,
                             clusterLifecycle = LifecycleSync\<rparr>,
          preCluster = exampleCluster, preGroups = [''nodes''], preProject = []\<rparr>"
  by (simp add: preflight_defs exampleCmd_def exampleWorld_def exampleCluster_def)

lemma Run_example:
  "Run exampleCmd exampleWorld =
     \<lparr>ended = Returned None,
      trace = [EvBuildTasks, EvFindDeletions,
               EvNewContext AWSAPITarget True (fst (FindDeletions exampleWorld)),
               EvWriteKopsVersion, EvWriteClusterCompleted,
               EvUpdateInstanceGroup ''nodes'', EvWriteMirror ''nodes'',
               EvRunTasks AWSAPITarget (fst (FindDeletions exampleWorld))
                 \<lparr>optConcurrency = 4, optMaxTaskDuration = 10 * Minute\<rparr>,
               EvPrecreateDNS,
               EvFinish AWSAPITarget (fst (FindDeletions exampleWorld)),
               EvContextClose],
      finalTaskMap = fst (FindDeletions exampleWorld),
      finalTarget = Some AWSAPITarget\<rparr>"
  using preflight_example [of TargetDirect]
  by (simp add: run_defs exampleCmd_def exampleWorld_def exampleCluster_def)

lemma Run_example_dryrun:
  "Run (exampleCmd\<lparr>TargetName := TargetDryRun\<rparr>) exampleWorld =
     \<lparr>ended = Returned None,
      trace = [EvBuildTasks, EvFindDeletions,
               EvNewContext (DryRunTarget False) True (fst (FindDeletions exampleWorld)),
               EvRunTasks (DryRunTarget False) (fst (FindDeletions exampleWorld))
                 \<lparr>optConcurrency = 4, optMaxTaskDuration = 10 * Minute\<rparr>,
               EvFinish (DryRunTarget False) (fst (FindDeletions exampleWorld)),
               EvContextClose],
      finalTaskMap = fst (FindDeletions exampleWorld),
      finalTarget = Some (DryRunTarget False)\<rparr>"
  using preflight_example [of TargetDryRun]
  by (simp add: run_defs exampleCmd_def exampleWorld_def exampleCluster_def)

lemma Run_example_other:
  "Run (exampleCmd\<lparr>TargetName := TargetOther ''json''\<rparr>) exampleWorld =
     \<lparr>ended = Returned (Some (Error ''unsupported target type'')),
      trace = [EvBuildTasks],
      finalTaskMap = fst (BuildTasks exampleWorld),
      finalTarget = None\<rparr>"
  using preflight_example [of "TargetOther ''json''"]
  by (simp add: run_defs exampleCmd_def exampleWorld_def exampleCluster_def)

lemmas node_defs = NodeUpRun_def nodePrepare_def loadConfig_def locateConfig_def
  loadCluster_def loadAuxConfig_def nodePlatform_def nodeStores_def nodeSelectTarget_def
  NodeNewContext_def completeLifecycle_def

lemma itoa_0: "itoa 0 = ''0''"
  by code_simp

lemma NodeUpRun_example:
  "NodeUpRun exampleNodeCmd exampleNodeWorld =
     (Returned None,
      [EvBuildTasks,
       EvNewContext (LocalTarget ''/var/cache/nodeup'') True
         [(''kubelet'', []), (''LoadImage.0'', [])],
       EvRunTasks (LocalTarget ''/var/cache/nodeup'')
         [(''kubelet'', []), (''LoadImage.0'', [])] \<lparr>optConcurrency = 4, optMaxTaskDuration = 10 * Minute\<rparr>,
       EvFinish (LocalTarget ''/var/cache/nodeup'') [(''kubelet'', []), (''LoadImage.0'', [])],
       EvContextClose])"
  by (simp add: node_defs exampleNodeCmd_def exampleNodeWorld_def itoa_0)

lemma preflight_example_world:
  "preflight (exampleCmd\<lparr>TargetName := tn\<rparr>) (exampleWorld\<lparr>RunTasks := f\<rparr>) = Inr examplePrepared"
  by (simp add: preflight_defs exampleCmd_def exampleWorld_def exampleCluster_def
      examplePrepared_def)

lemma Run_example_tasks_fail:
  "Run exampleCmd (exampleWorld\<lparr>RunTasks := (\<lambda>t m opts. Some (Error ''task failed''))\<rparr>) =
     \<lparr>ended = Returned (Some (Error ''error running tasks'')),
      trace = [EvBuildTasks, EvFindDeletions,
               EvNewContext AWSAPITarget True (fst (FindDeletions exampleWorld)),
               EvWriteKopsVersion, EvWriteClusterCompleted,
               EvUpdateInstanceGroup ''nodes'', EvWriteMirror ''nodes'',
               EvRunTasks AWSAPITarget (fst (FindDeletions exampleWorld))
                 \<lparr>optConcurrency = 4, optMaxTaskDuration = 10 * Minute\<rparr>,
               EvContextClose],
      finalTaskMap = fst (FindDeletions exampleWorld),
      finalTarget = Some AWSAPITarget\<rparr>"
  using preflight_example_world [of TargetDirect "\<lambda>t m opts. Some (Error ''task failed'')"]
  by (simp add: run_defs exampleCmd_def exampleWorld_def exampleCluster_def
      examplePrepared_def)

lemma Run_example_newer_marker:
  "Run exampleCmd (exampleWorld\<lparr>ReadKopsVersionUpdated := MarkerNewer\<rparr>) =
     \<lparr>ended = Returned (Some (Error ''kops version older than last used to update the cluster'')),
      trace = [], finalTaskMap = [], finalTarget = None\<rparr>"
  by (simp add: Run_def preflight_defs exampleCmd_def exampleWorld_def exampleCluster_def)

lemma Run_example_terraform:
  "Run (exampleCmd\<lparr>TargetName := TargetTerraform\<rparr>) exampleWorld =
     \<lparr>ended = Returned None,
      trace = [EvBuildTasks,
               EvNewContext (TerraformTarget [''region'', ''cluster_name'']) False
                 (fst (BuildTasks exampleWorld)),
               EvWriteKopsVersion, EvWriteClusterCompleted,
               EvUpdateInstanceGroup ''nodes'', EvWriteMirror ''nodes'',
               EvRunTasks (TerraformTarget [''region'', ''cluster_name''])
                 (fst (BuildTasks exampleWorld)) \<lparr>optConcurrency = 4, optMaxTaskDuration = 10 * Minute\<rparr>,
               EvFinish (TerraformTarget [''region'', ''cluster_name''])
                 (fst (BuildTasks exampleWorld)),
               EvContextClose],
      finalTaskMap = fst (BuildTasks exampleWorld),
      finalTarget = Some (TerraformTarget [''region'', ''cluster_name''])\<rparr>"
  using preflight_example [of TargetTerraform]
  by (simp add: run_defs exampleCmd_def exampleWorld_def exampleCluster_def)

lemma selectTarget_example:
  "selectTarget (exampleCmd\<lparr>TargetName := TargetDryRun\<rparr>) exampleWorld examplePrepared =
     Inr \<lparr>selTarget = DryRunTarget False, selCheckExisting = True, selDryRun = True,
          selShouldPrecreateDNS = False\<rparr>"
  "selectTarget (exampleCmd\<lparr>TargetName := TargetTerraform\<rparr>) exampleWorld examplePrepared =
     Inr \<lparr>selTarget = TerraformTarget [''region'', ''cluster_name''],
          selCheckExisting = False, selDryRun = False, selShouldPrecreateDNS = False\<rparr>"
  by (simp_all add: selectTarget_def selected_def addProjectVariable_def exampleCmd_def
      exampleWorld_def examplePrepared_def)

lemma NodeUpRun_example_tasks_fail:
  "NodeUpRun exampleNodeCmd
     (exampleNodeWorld\<lparr>NodeRunTasks := (\<lambda>t m opts. Some (Error ''task failed''))\<rparr>) =
     (Exited,
      [EvBuildTasks,
       EvNewContext (LocalTarget ''/var/cache/nodeup'') True
         [(''kubelet'', []), (''LoadImage.0'', [])],
       EvRunTasks (LocalTarget ''/var/cache/nodeup'')
         [(''kubelet'', []), (''LoadImage.0'', [])] \<lparr>optConcurrency = 4, optMaxTaskDuration = 10 * Minute\<rparr>])"
  by (simp add: node_defs exampleNodeCmd_def exampleNodeWorld_def itoa_0)



lemma Run_example_dnsfail:
  "Run exampleCmd (exampleWorld\<lparr>precreateDNS := Some (Error ''throttled'')\<rparr>) =
     \<lparr>ended = Returned None,
      trace = [EvBuildTasks, EvFindDeletions,
               EvNewContext AWSAPITarget True (fst (FindDeletions exampleWorld)),
               EvWriteKopsVersion, EvWriteClusterCompleted,
               EvUpdateInstanceGroup ''nodes'', EvWriteMirror ''nodes'',
               EvRunTasks AWSAPITarget (fst (FindDeletions exampleWorld))
                 \<lparr>optConcurrency = 4, optMaxTaskDuration = 10 * Minute\<rparr>,
               EvPrecreateDNS, EvWarning ''unable to pre-create DNS records'',
               EvFinish AWSAPITarget (fst (FindDeletions exampleWorld)),
               EvContextClose],
      finalTaskMap = fst (FindDeletions exampleWorld),
      finalTarget = Some AWSAPITarget\<rparr>"
proof -
  have pf: "preflight exampleCmd (exampleWorld\<lparr>precreateDNS := Some (Error ''throttled'')\<rparr>) =
     Inr \<lparr>preLifecycles = \<lparr>securityLifecycle = LifecycleSync, networkLifecycle = LifecycleSync,
                             clusterLifecycle = LifecycleSync\<rparr>,
          preCluster = exampleCluster, preGroups = [''nodes''], preProject = []\<rparr>"
    using preflight_example [of TargetDirect]
    by (simp add: preflight_precreateDNS exampleCmd_def)
  show ?thesis
    unfolding Run_def pf
    by (simp add: run_defs exampleCmd_def exampleWorld_def exampleCluster_def)
qed

subsection \<open>Order and number of the calls\<close>








lemma selectTarget_checkExisting:
  "selectTarget c w p = Inr s \<Longrightarrow>
     selCheckExisting s = (TargetName c \<noteq> TargetTerraform \<and> TargetName c \<noteq> TargetCloudformation)"
  using selectTarget_Inr [of c w p s] selectTarget_names [of c w p s] by auto



subsection \<open>What RunTasks works on, and the life of the context\<close>









subsection \<open>The target that a name selects\<close>























subsection \<open>The retry loop and the options\<close>










subsection \<open>The Resolver orders what can be ordered\<close>

text \<open>
  The ordering loop is sound (what it returns is an order of all the tasks in which
  dependencies come first) and complete (without a cycle it returns an order); its only
  error is the cycle, and the tasks on a cycle are among those it names.
\<close>

lemma findDuplicate_None: "findDuplicate ns = None \<longleftrightarrow> distinct ns"
  by (induction ns) auto

lemma findUnresolved_None:
  "findUnresolved names ts = None \<longleftrightarrow> (\<forall>t\<in>set ts. set (snd t) \<subseteq> set names)"
proof (induction ts)
  case Nil
  show ?case by simp
next
  case (Cons t ts)
  obtain n ds where t: "t = (n, ds)" by (cases t)
  show ?case
  proof (cases "filter (\<lambda>d. d \<notin> set names) ds")
    case Nil
    then have "set ds \<subseteq> set names" by (auto simp: filter_empty_conv)
    with Nil Cons t show ?thesis by simp
  next
    case (Cons d rest)
    then have "d \<in> set (filter (\<lambda>d. d \<notin> set names) ds)" by simp
    then have "\<not> set ds \<subseteq> set names" by auto
    with Cons t show ?thesis by simp
  qed
qed

text \<open>The position of the first occurrence of a name in an order.\<close>

lemma takeWhile_position:
  assumes "d \<in> set (takeWhile (\<lambda>x. x \<noteq> n) xs)"
  shows "length (takeWhile (\<lambda>x. x \<noteq> d) xs) < length (takeWhile (\<lambda>x. x \<noteq> n) xs)"
  using assms
proof (induction xs)
  case Nil
  then show ?case by simp
next
  case (Cons x xs)
  then show ?case by (cases "x = n"; cases "x = d") auto
qed

lemma orderTasks_sound:
  assumes "orderTasks done remaining = Inr order"
    and "distinct (map fst remaining)" and "set done \<inter> fst ` set remaining = {}"
  shows "(\<exists>new. order = done @ new \<and> set new = fst ` set remaining \<and> distinct new)
         \<and> (\<forall>t\<in>set remaining. \<forall>d\<in>set (snd t).
               d \<in> set (takeWhile (\<lambda>x. x \<noteq> fst t) order))"
  using assms
proof (induction "done" remaining arbitrary: order rule: orderTasks.induct)
  case (1 "done" remaining)
  show ?case
  proof (cases "remaining = []")
    case True
    with "1.prems" show ?thesis by (simp add: orderTasks.simps)
  next
    case False
    let ?ready = "filter (isReady done) remaining"
    let ?waiting = "filter (\<lambda>t. \<not> isReady done t) remaining"
    let ?done' = "done @ map fst ?ready"
    have ne: "?ready \<noteq> []"
      using "1.prems"(1) False by (auto simp: orderTasks.simps [of "done" remaining] split: if_splits)
    have rec: "orderTasks ?done' ?waiting = Inr order"
      using "1.prems"(1) False ne by (simp add: orderTasks.simps [of "done" remaining])
    have dw: "distinct (map fst ?waiting)"
      using "1.prems"(2) by (simp add: distinct_map_filter)
    have disj: "set ?done' \<inter> fst ` set ?waiting = {}"
    proof -
      have "fst ` set ?ready \<inter> fst ` set ?waiting = {}"
      proof (rule ccontr)
        assume "fst ` set ?ready \<inter> fst ` set ?waiting \<noteq> {}"
        then obtain a b where ab: "a \<in> set remaining" "isReady done a"
            "b \<in> set remaining" "\<not> isReady done b" "fst a = fst b"
          by auto
        with "1.prems"(2) have "a = b" by (meson distinct_map inj_on_def)
        with ab show False by simp
      qed
      with "1.prems"(3) show ?thesis by auto
    qed
    note ih = "1.IH" [OF False ne rec dw disj]
    from ih obtain new where new: "order = ?done' @ new" "set new = fst ` set ?waiting"
        "distinct new"
      by blast
    have rw: "fst ` set ?ready \<inter> fst ` set ?waiting = {}" using disj by auto
    have m: "set (map fst ?ready @ new) = fst ` set remaining"
      using new(2) by auto
    have dn: "distinct (map fst ?ready @ new)"
      using new(2,3) rw "1.prems"(2) by (simp add: distinct_map_filter)
    have ord: "d \<in> set (takeWhile (\<lambda>x. x \<noteq> fst t) order)"
      if "t \<in> set remaining" "d \<in> set (snd t)" for t d
    proof (cases "isReady done t")
      case True
      then have "d \<in> set done" using that(2) by (auto simp: isReady_def)
      moreover have "\<forall>x\<in>set done. x \<noteq> fst t" using that(1) "1.prems"(3) by auto
      then have "takeWhile (\<lambda>x. x \<noteq> fst t) (done @ (map fst ?ready @ new)) =
                   done @ takeWhile (\<lambda>x. x \<noteq> fst t) (map fst ?ready @ new)"
        by (rule takeWhile_all)
      ultimately show ?thesis using new(1) by simp
    next
      case False
      then have "t \<in> set ?waiting" using that(1) by simp
      with ih that(2) show ?thesis by blast
    qed
    have "order = done @ (map fst ?ready @ new)" using new(1) by simp
    with m dn ord show ?thesis by blast
  qed
qed


lemma orderTasks_complete:
  assumes "distinct (map fst remaining)"
    and "\<forall>t\<in>set remaining. set (snd t) \<subseteq> set done \<union> fst ` set remaining"
    and "acyclic (edges remaining)"
  shows "\<exists>order. orderTasks done remaining = Inr order"
  using assms
proof (induction "done" remaining rule: orderTasks.induct)
  case (1 "done" remaining)
  show ?case
  proof (cases "remaining = []")
    case True
    then show ?thesis by (simp add: orderTasks.simps)
  next
    case False
    let ?ready = "filter (isReady done) remaining"
    let ?waiting = "filter (\<lambda>t. \<not> isReady done t) remaining"
    let ?done' = "done @ map fst ?ready"
    let ?names = "fst ` set remaining"
    have ne: "?ready \<noteq> []"
    proof (rule ccontr)
      assume "\<not> ?ready \<noteq> []"
      then have none: "\<forall>t\<in>set remaining. \<not> isReady done t" by (simp add: filter_empty_conv)
      define r where "r = {(d, n). (n, d) \<in> edges remaining \<and> d \<in> ?names}"
      have "r \<subseteq> (edges remaining)\<inverse>" by (auto simp: r_def)
      moreover have "acyclic ((edges remaining)\<inverse>)" using "1.prems"(3) by simp
      ultimately have ac: "acyclic r" by (rule acyclic_subset [rotated])
      have "r \<subseteq> ?names \<times> ?names" by (force simp: r_def edges_def)
      then have fr: "finite r" by (rule finite_subset) simp
      have wfr: "wf r" using fr ac by (rule finite_acyclic_wf)
      obtain t0 where "t0 \<in> set remaining" using False by (cases remaining) auto
      then have t0: "fst t0 \<in> ?names" by simp
      obtain z where z: "z \<in> ?names" "\<And>y. (y, z) \<in> r \<Longrightarrow> y \<notin> ?names"
        using wfE_min [OF wfr t0] by blast
      from z(1) obtain t where t: "t \<in> set remaining" "fst t = z" by auto
      with none obtain d where d: "d \<in> set (snd t)" "d \<notin> set done"
        by (auto simp: isReady_def)
      with "1.prems"(2) t have dn: "d \<in> ?names" by blast
      have "(fst t, snd t) \<in> set remaining" using t(1) by simp
      then have "(z, d) \<in> edges remaining"
        using t(2) d(1) unfolding edges_def by blast
      with dn have "(d, z) \<in> r" by (simp add: r_def)
      with z(2) dn show False by blast
    qed
    have dw: "distinct (map fst ?waiting)"
      using "1.prems"(1) by (simp add: distinct_map_filter)
    have deps: "\<forall>t\<in>set ?waiting. set (snd t) \<subseteq> set ?done' \<union> fst ` set ?waiting"
    proof
      fix t assume "t \<in> set ?waiting"
      then have "t \<in> set remaining" by simp
      with "1.prems"(2) have "set (snd t) \<subseteq> set done \<union> ?names" by blast
      moreover have "?names = fst ` set ?ready \<union> fst ` set ?waiting" by auto
      ultimately show "set (snd t) \<subseteq> set ?done' \<union> fst ` set ?waiting" by auto
    qed
    have "edges ?waiting \<subseteq> edges remaining" by (auto simp: edges_def)
    with "1.prems"(3) have ac: "acyclic (edges ?waiting)" by (rule acyclic_subset)
    from "1.IH" [OF False ne dw deps ac] obtain order
      where "orderTasks ?done' ?waiting = Inr order" by blast
    with False ne show ?thesis by (simp add: orderTasks.simps [of "done" remaining])
  qed
qed


lemma orderTasks_Inl:
  "orderTasks done remaining = Inl e \<Longrightarrow>
     \<exists>ms. e = DependencyCycle ms \<and> ms \<noteq> [] \<and> set ms \<subseteq> fst ` set remaining"
proof (induction "done" remaining rule: orderTasks.induct)
  case (1 "done" remaining)
  show ?case
  proof (cases "remaining = [] \<or> filter (isReady done) remaining = []")
    case True
    with "1.prems" show ?thesis
      by (auto simp: orderTasks.simps [of "done" remaining] split: if_splits)
  next
    case False
    then have "orderTasks (done @ map fst (filter (isReady done) remaining))
                 (filter (\<lambda>t. \<not> isReady done t) remaining) = Inl e"
      using "1.prems" by (simp add: orderTasks.simps [of "done" remaining])
    with "1.IH" False show ?thesis by fastforce
  qed
qed

lemma path_in_domain:
  assumes "(a, b) \<in> E\<^sup>+" and "b \<in> Domain E"
  shows "(a, b) \<in> {(x, y). (x, y) \<in> E \<and> y \<in> Domain E}\<^sup>+"
  using assms
proof (induction rule: trancl_induct)
  case (base y)
  then show ?case by auto
next
  case (step y z)
  then have "y \<in> Domain E" by auto
  with step have "(a, y) \<in> {(x, y). (x, y) \<in> E \<and> y \<in> Domain E}\<^sup>+" by simp
  moreover have "(y, z) \<in> {(x, y). (x, y) \<in> E \<and> y \<in> Domain E}" using step by simp
  ultimately show ?case by (rule trancl_into_trancl)
qed

lemma orderTasks_names_cycle:
  assumes "orderTasks done remaining = Inl (DependencyCycle ms)"
    and "set done \<inter> fst ` set remaining = {}" and "distinct (map fst remaining)"
    and "(n, n) \<in> (edges remaining)\<^sup>+"
  shows "n \<in> set ms"
  using assms
proof (induction "done" remaining rule: orderTasks.induct)
  case (1 "done" remaining)
  let ?ready = "filter (isReady done) remaining"
  let ?waiting = "filter (\<lambda>t. \<not> isReady done t) remaining"
  let ?done' = "done @ map fst ?ready"
  have dom: "Domain (edges remaining) \<subseteq> fst ` set remaining" by (force simp: edges_def)
  have nd: "n \<in> Domain (edges remaining)" using "1.prems"(4) by (meson Domain.DomainI tranclD)
  have ne: "remaining \<noteq> []" using nd dom by auto
  show ?case
  proof (cases "?ready = []")
    case True
    with "1.prems"(1) ne have "ms = map fst remaining"
      by (simp add: orderTasks.simps [of "done" remaining])
    with nd dom show ?thesis by auto
  next
    case False
    have rec: "orderTasks ?done' ?waiting = Inl (DependencyCycle ms)"
      using "1.prems"(1) ne False by (simp add: orderTasks.simps [of "done" remaining])
    have dw: "distinct (map fst ?waiting)"
      using "1.prems"(3) by (simp add: distinct_map_filter)
    have rw: "fst ` set ?ready \<inter> fst ` set ?waiting = {}"
    proof (rule ccontr)
      assume "fst ` set ?ready \<inter> fst ` set ?waiting \<noteq> {}"
      then obtain a b where ab: "a \<in> set remaining" "isReady done a"
          "b \<in> set remaining" "\<not> isReady done b" "fst a = fst b"
        by auto
      with "1.prems"(3) have "a = b" by (meson distinct_map inj_on_def)
      with ab show False by simp
    qed
    with "1.prems"(2) have disj: "set ?done' \<inter> fst ` set ?waiting = {}" by auto
    have sub: "{(x, y). (x, y) \<in> edges remaining \<and> y \<in> Domain (edges remaining)}
                 \<subseteq> edges ?waiting"
    proof (rule subsetI)
      fix e assume "e \<in> {(x, y). (x, y) \<in> edges remaining \<and> y \<in> Domain (edges remaining)}"
      then obtain x y where e: "e = (x, y)"
        and xy: "(x, y) \<in> edges remaining" "y \<in> Domain (edges remaining)"
        by auto
      from xy(1) obtain ds where ds: "(x, ds) \<in> set remaining" "y \<in> set ds"
        by (auto simp: edges_def)
      have "y \<notin> set done" using xy(2) dom "1.prems"(2) by auto
      with ds(2) have "\<not> isReady done (x, ds)" by (auto simp: isReady_def)
      with ds have "(x, y) \<in> edges ?waiting" by (auto simp: edges_def)
      with e show "e \<in> edges ?waiting" by simp
    qed
    have "(n, n) \<in> {(x, y). (x, y) \<in> edges remaining \<and> y \<in> Domain (edges remaining)}\<^sup>+"
      using "1.prems"(4) nd by (rule path_in_domain)
    with sub have cyc: "(n, n) \<in> (edges ?waiting)\<^sup>+" by (rule trancl_mono [rotated])
    from "1.IH" [OF ne False rec disj dw cyc] show ?thesis .
  qed
qed

lemma position_decreases:
  "appearsBefore order d n \<Longrightarrow>
     length (takeWhile (\<lambda>x. x \<noteq> d) order) < length (takeWhile (\<lambda>x. x \<noteq> n) order)"
  unfolding appearsBefore_def by (blast intro: takeWhile_position)

lemma resolve_Inr:
  assumes "resolve tasks = Inr order"
  shows "set order = fst ` set tasks \<and> distinct order
         \<and> (\<forall>t\<in>set tasks. \<forall>d\<in>set (snd t). appearsBefore order d (fst t))"
proof -
  have d: "distinct (map fst tasks)" and o: "orderTasks [] tasks = Inr order"
    using assms
    by (auto simp: resolve_def findDuplicate_None split: option.splits prod.splits)
  from orderTasks_sound [OF o d] show ?thesis
    by (auto simp: appearsBefore_def)
qed

lemma resolve_exampleTasks:
  "resolve exampleTasks = Inr [''VPC'', ''Subnet'', ''Instance'']"
  by (simp add: resolve_def exampleTasks_def orderTasks.simps isReady_def)

lemma resolve_cyclicTasks:
  "resolve cyclicTasks = Inl (DependencyCycle [''Instance'', ''VPC'', ''Subnet''])"
  by (simp add: resolve_def cyclicTasks_def orderTasks.simps isReady_def)

subsection \<open>The claims\<close>

text \<open>
  C1 (as amended). \<open>checkExisting\<close> is switched off by the Terraform and CloudFormation
  targets and by no other: it stays on for the direct target and for the dry run. In a run
  that reaches the choice of the target, \<open>FindDeletions\<close> is called, and what it returns
  replaces the task map of the command, if and only if \<open>checkExisting\<close> is on; the context
  is then created with that flag and that task map. In any run, \<open>FindDeletions\<close> is called
  at most once, and only for the direct and the dry-run target.
\<close>

theorem deletions_when_checkExisting:
  "(selectTarget c w p = Inr s \<longrightarrow>
       selCheckExisting s
         = (TargetName c \<noteq> TargetTerraform \<and> TargetName c \<noteq> TargetCloudformation))
   \<and> (preflight c w = Inr p \<and> BuildTasks w = (tasks, None) \<and> selectTarget c w p = Inr s \<longrightarrow>
        (EvFindDeletions \<in> set (trace (Run c w)) \<longleftrightarrow> selCheckExisting s)
        \<and> finalTaskMap (Run c w) = (if selCheckExisting s then fst (FindDeletions w) else tasks)
        \<and> (\<forall>t ce m. EvNewContext t ce m \<in> set (trace (Run c w)) \<longrightarrow>
             ce = selCheckExisting s \<and> m = finalTaskMap (Run c w)))
   \<and> (EvFindDeletions \<in> set (trace (Run c w)) \<longrightarrow>
        TargetName c = TargetDirect \<or> TargetName c = TargetDryRun)
   \<and> length (filter (\<lambda>e. e = EvFindDeletions) (trace (Run c w))) \<le> 1"
proof -
  have "(preflight c w = Inr p \<and> BuildTasks w = (tasks, None) \<and> selectTarget c w p = Inr s \<longrightarrow>
        (EvFindDeletions \<in> set (trace (Run c w)) \<longleftrightarrow> selCheckExisting s)
        \<and> finalTaskMap (Run c w) = (if selCheckExisting s then fst (FindDeletions w) else tasks)
        \<and> (\<forall>t ce m. EvNewContext t ce m \<in> set (trace (Run c w)) \<longrightarrow>
             ce = selCheckExisting s \<and> m = finalTaskMap (Run c w)))
   \<and> (EvFindDeletions \<in> set (trace (Run c w)) \<longrightarrow>
        TargetName c = TargetDirect \<or> TargetName c = TargetDryRun)
   \<and> length (filter (\<lambda>e. e = EvFindDeletions) (trace (Run c w))) \<le> 1"
  proof (cases rule: Run_cases [of c w])
    case (deletionsFailed p' tasks' s' m e)
    then show ?thesis using selectTarget_Inr [OF deletionsFailed(3)] by auto
  next
    case (contextFailed p' tasks' s' m fd e)
    then show ?thesis
      using selectTarget_Inr [OF contextFailed(3)] by (auto split: if_splits)
  next
    case (writeFailed p' tasks' s' m fd e ws)
    note gw = guarded_writes [of True w "preGroups p'" "Some e" ws]
    have ws: "EvFindDeletions \<notin> set ws" "\<forall>t ce m. EvNewContext t ce m \<notin> set ws"
      using gw(8) gw(4) writeFailed(8) by auto
    have f: "filter (\<lambda>e. e = EvFindDeletions) ws = []"
      using ws(1) by (auto simp: filter_empty_conv)
    show ?thesis
      unfolding writeFailed(9)
      using ws f selectTarget_Inr [OF writeFailed(3)] writeFailed(1,2,3,4)
      by (auto split: if_splits)
  next
    case (tasksFailed p' tasks' s' m fd ws e)
    note gw = guarded_writes [OF tasksFailed(6)]
    have ws: "EvFindDeletions \<notin> set ws" "\<forall>t ce m. EvNewContext t ce m \<notin> set ws"
      using gw(8) gw(4) by auto
    have f: "filter (\<lambda>e. e = EvFindDeletions) ws = []"
      using ws(1) by (auto simp: filter_empty_conv)
    show ?thesis
      unfolding tasksFailed(8)
      using ws f selectTarget_Inr [OF tasksFailed(3)] tasksFailed(1,2,3,4)
      by (auto split: if_splits)
  next
    case (finished p' tasks' s' m fd ws)
    note gw = guarded_writes [OF finished(6)]
    have ws: "EvFindDeletions \<notin> set ws" "\<forall>t ce m. EvNewContext t ce m \<notin> set ws"
      using gw(8) gw(4) by auto
    have f: "filter (\<lambda>e. e = EvFindDeletions) ws = []"
      using ws(1) by (auto simp: filter_empty_conv)
    have pc: "EvFindDeletions \<notin> set (precreate w p' s')"
      "\<forall>t ce m. EvNewContext t ce m \<notin> set (precreate w p' s')"
      "filter (\<lambda>e. e = EvFindDeletions) (precreate w p' s') = []"
      using precreate_kinds(4,7) [of w p' s'] by (auto simp: filter_empty_conv)
    show ?thesis
      unfolding finished(8)
      using ws f pc selectTarget_Inr [OF finished(3)] finished(1,2,3,4)
      by (auto split: if_splits)
  qed auto
  then show ?thesis using selectTarget_checkExisting [of c w p s] by blast
qed

text \<open>
  C1 as stated fails on a dry run: there \<open>checkExisting\<close> is on, \<open>FindDeletions\<close> is called
  and the task map of the command becomes the one with the deletion of \<open>Subnet2\<close>.
\<close>

theorem deletions_on_dry_run_counterexample:
  "TargetName (exampleCmd\<lparr>TargetName := TargetDryRun\<rparr>) = TargetDryRun
   \<and> selectTarget (exampleCmd\<lparr>TargetName := TargetDryRun\<rparr>) exampleWorld examplePrepared =
       Inr \<lparr>selTarget = DryRunTarget False, selCheckExisting = True, selDryRun = True,
            selShouldPrecreateDNS = False\<rparr>
   \<and> EvFindDeletions \<in> set (trace (Run (exampleCmd\<lparr>TargetName := TargetDryRun\<rparr>) exampleWorld))
   \<and> finalTaskMap (Run (exampleCmd\<lparr>TargetName := TargetDryRun\<rparr>) exampleWorld) =
       [(''VPC'', []), (''Subnet'', [''VPC'']), (''Subnet2'', [''VPC''])]"
  by (simp add: Run_example_dryrun selectTarget_example) (simp add: exampleWorld_def)

text \<open>A Terraform run of the example computes no deletions; the direct run does.\<close>

theorem deletions_when_checkExisting_witness:
  "selectTarget (exampleCmd\<lparr>TargetName := TargetTerraform\<rparr>) exampleWorld examplePrepared =
     Inr \<lparr>selTarget = TerraformTarget [''region'', ''cluster_name''],
          selCheckExisting = False, selDryRun = False, selShouldPrecreateDNS = False\<rparr>
   \<and> preflight (exampleCmd\<lparr>TargetName := TargetTerraform\<rparr>) exampleWorld = Inr examplePrepared
   \<and> BuildTasks exampleWorld = ([(''VPC'', []), (''Subnet'', [''VPC''])], None)
   \<and> EvFindDeletions \<notin> set (trace (Run (exampleCmd\<lparr>TargetName := TargetTerraform\<rparr>) exampleWorld))
   \<and> finalTaskMap (Run (exampleCmd\<lparr>TargetName := TargetTerraform\<rparr>) exampleWorld) =
       [(''VPC'', []), (''Subnet'', [''VPC''])]
   \<and> EvFindDeletions \<in> set (trace (Run exampleCmd exampleWorld))
   \<and> (TargetName exampleCmd = TargetDirect \<or> TargetName exampleCmd = TargetDryRun)"
proof -
  let ?c = "exampleCmd\<lparr>TargetName := TargetTerraform\<rparr>"
  let ?s = "\<lparr>selTarget = TerraformTarget [''region'', ''cluster_name''],
            selCheckExisting = False, selDryRun = False, selShouldPrecreateDNS = False\<rparr>"
  let ?tasks = "[(''VPC'', []), (''Subnet'', [''VPC''])]"
  have sel: "selectTarget ?c exampleWorld examplePrepared = Inr ?s"
    by (rule selectTarget_example(2))
  have pf: "preflight ?c exampleWorld = Inr examplePrepared"
    using preflight_example [of TargetTerraform]
    by (simp add: exampleCmd_def examplePrepared_def)
  have bt: "BuildTasks exampleWorld = (?tasks, None)" by (simp add: exampleWorld_def)
  have mem: "EvFindDeletions \<in> set (trace (Run exampleCmd exampleWorld))"
    by (simp add: Run_example)
  from deletions_when_checkExisting [of ?c exampleWorld examplePrepared ?s ?tasks] sel pf bt
  have "EvFindDeletions \<notin> set (trace (Run ?c exampleWorld))
        \<and> finalTaskMap (Run ?c exampleWorld) = ?tasks"
    by simp
  moreover from deletions_when_checkExisting [of exampleCmd exampleWorld examplePrepared ?s ?tasks]
    mem
  have "TargetName exampleCmd = TargetDirect \<or> TargetName exampleCmd = TargetDryRun"
    by blast
  ultimately show ?thesis using sel pf bt mem by simp
qed

text \<open>
  C2 (as amended). When \<open>RunTasks\<close> fails, \<open>ApplyClusterCmd.Run\<close> returns the error "error
  running tasks" and \<open>NodeUpCommand.Run\<close> ends the process (\<open>klog.Exitf\<close>) without
  returning; in both, \<open>Finish\<close> is not called. A run that returns success has called
  \<open>RunTasks\<close>, and it succeeded.
\<close>

theorem tasks_failure_fails_run:
  "(\<forall>t m opts. EvRunTasks t m opts \<in> set (trace (Run c w)) \<and> RunTasks w t m opts \<noteq> None \<longrightarrow>
       ended (Run c w) = Returned (Some (Error ''error running tasks''))
       \<and> (\<forall>e\<in>set (trace (Run c w)). \<not> isFinish e))
   \<and> (\<forall>t m opts. EvRunTasks t m opts \<in> set (snd (NodeUpRun n v))
                    \<and> NodeRunTasks v t m opts \<noteq> None \<longrightarrow>
        fst (NodeUpRun n v) = Exited
        \<and> (\<forall>e\<in>set (snd (NodeUpRun n v)). \<not> isFinish e))
   \<and> (ended (Run c w) = Returned None \<longrightarrow>
        (\<exists>t m opts. EvRunTasks t m opts \<in> set (trace (Run c w)) \<and> RunTasks w t m opts = None))
   \<and> (fst (NodeUpRun n v) = Returned None \<longrightarrow>
        (\<exists>t m opts. EvRunTasks t m opts \<in> set (snd (NodeUpRun n v))
           \<and> NodeRunTasks v t m opts = None))"
proof -
  have app: "(\<forall>t m opts. EvRunTasks t m opts \<in> set (trace (Run c w))
                 \<and> RunTasks w t m opts \<noteq> None \<longrightarrow>
       ended (Run c w) = Returned (Some (Error ''error running tasks''))
       \<and> (\<forall>e\<in>set (trace (Run c w)). \<not> isFinish e))
     \<and> (ended (Run c w) = Returned None \<longrightarrow>
        (\<exists>t m opts. EvRunTasks t m opts \<in> set (trace (Run c w)) \<and> RunTasks w t m opts = None))"
  proof (cases rule: Run_cases [of c w])
    case (early oc)
    then show ?thesis using preflight_Inl [of c w oc] by auto
  next
    case (noTarget p tasks oc)
    then show ?thesis using selectTarget_Inl [of c w p oc] by auto
  next
    case (writeFailed p tasks s m fd e ws)
    note gw = guarded_writes [of True w "preGroups p" "Some e" ws]
    have "\<forall>e\<in>set ws. isStateWrite e" using gw(1) writeFailed(8) by simp
    then have "\<forall>t m opts. EvRunTasks t m opts \<notin> set ws" by auto
    then show ?thesis
      unfolding writeFailed(9) deletions_flag(1) [OF writeFailed(3,4)] by auto
  next
    case (tasksFailed p tasks s m fd ws e)
    note gw = guarded_writes [OF tasksFailed(6)]
    have "\<forall>t m opts. EvRunTasks t m opts \<notin> set ws" using gw(1) by auto
    then show ?thesis
      using gw(3) unfolding tasksFailed(8) deletions_flag(1) [OF tasksFailed(3,4)] by auto
  next
    case (finished p tasks s m fd ws)
    note gw = guarded_writes [OF finished(6)]
    have "\<forall>t m opts. EvRunTasks t m opts \<notin> set ws" using gw(1) by auto
    moreover have "\<forall>t m opts. EvRunTasks t m opts \<notin> set (precreate w p s)"
      using precreate_kinds(2) [of w p s] by auto
    ultimately show ?thesis
      using finished(7) unfolding finished(8) deletions_flag(1) [OF finished(3,4)] by auto
  qed (auto split: if_splits)
  have node: "(\<forall>t m opts. EvRunTasks t m opts \<in> set (snd (NodeUpRun n v))
                    \<and> NodeRunTasks v t m opts \<noteq> None \<longrightarrow>
        fst (NodeUpRun n v) = Exited
        \<and> (\<forall>e\<in>set (snd (NodeUpRun n v)). \<not> isFinish e))
     \<and> (fst (NodeUpRun n v) = Returned None \<longrightarrow>
        (\<exists>t m opts. EvRunTasks t m opts \<in> set (snd (NodeUpRun n v))
           \<and> NodeRunTasks v t m opts = None))"
  proof (cases rule: NodeUpRun_cases [of n v])
    case (prepareFailed oc)
    then show ?thesis using nodePrepare_Inl [of n v oc] by auto
  qed auto
  from app node show ?thesis by blast
qed

text \<open>
  C2 as stated fails for nodeup: with a failing \<open>RunTasks\<close> the run does not return an
  error, it exits.
\<close>

theorem nodeup_exits_counterexample:
  "NodeRunTasks (exampleNodeWorld\<lparr>NodeRunTasks := (\<lambda>t m opts. Some (Error ''task failed''))\<rparr>)
       (LocalTarget ''/var/cache/nodeup'') [(''kubelet'', []), (''LoadImage.0'', [])]
       \<lparr>optConcurrency = 4, optMaxTaskDuration = 10 * Minute\<rparr> = Some (Error ''task failed'')
   \<and> EvRunTasks (LocalTarget ''/var/cache/nodeup'') [(''kubelet'', []), (''LoadImage.0'', [])]
         \<lparr>optConcurrency = 4, optMaxTaskDuration = 10 * Minute\<rparr>
       \<in> set (snd (NodeUpRun exampleNodeCmd
                 (exampleNodeWorld\<lparr>NodeRunTasks := (\<lambda>t m opts. Some (Error ''task failed''))\<rparr>)))
   \<and> fst (NodeUpRun exampleNodeCmd
            (exampleNodeWorld\<lparr>NodeRunTasks := (\<lambda>t m opts. Some (Error ''task failed''))\<rparr>))
       = Exited"
  by (simp add: NodeUpRun_example_tasks_fail)

text \<open>The two example runs with failing tasks, and the two that succeed.\<close>

theorem tasks_failure_fails_run_witness:
  "EvRunTasks AWSAPITarget (fst (FindDeletions exampleWorld))
       \<lparr>optConcurrency = 4, optMaxTaskDuration = 10 * Minute\<rparr>
       \<in> set (trace (Run exampleCmd
                 (exampleWorld\<lparr>RunTasks := (\<lambda>t m opts. Some (Error ''task failed''))\<rparr>)))
   \<and> RunTasks (exampleWorld\<lparr>RunTasks := (\<lambda>t m opts. Some (Error ''task failed''))\<rparr>)
        AWSAPITarget (fst (FindDeletions exampleWorld))
       \<lparr>optConcurrency = 4, optMaxTaskDuration = 10 * Minute\<rparr>
       \<noteq> None
   \<and> ended (Run exampleCmd (exampleWorld\<lparr>RunTasks := (\<lambda>t m opts. Some (Error ''task failed''))\<rparr>))
       = Returned (Some (Error ''error running tasks''))
   \<and> EvFinish AWSAPITarget (fst (FindDeletions exampleWorld))
       \<notin> set (trace (Run exampleCmd
                 (exampleWorld\<lparr>RunTasks := (\<lambda>t m opts. Some (Error ''task failed''))\<rparr>)))
   \<and> EvRunTasks (LocalTarget ''/var/cache/nodeup'') [(''kubelet'', []), (''LoadImage.0'', [])]
         \<lparr>optConcurrency = 4, optMaxTaskDuration = 10 * Minute\<rparr>
       \<in> set (snd (NodeUpRun exampleNodeCmd
                 (exampleNodeWorld\<lparr>NodeRunTasks := (\<lambda>t m opts. Some (Error ''task failed''))\<rparr>)))
   \<and> fst (NodeUpRun exampleNodeCmd
            (exampleNodeWorld\<lparr>NodeRunTasks := (\<lambda>t m opts. Some (Error ''task failed''))\<rparr>))
       = Exited
   \<and> ended (Run exampleCmd exampleWorld) = Returned None
   \<and> fst (NodeUpRun exampleNodeCmd exampleNodeWorld) = Returned None"
proof -
  let ?w = "exampleWorld\<lparr>RunTasks := (\<lambda>t m opts. Some (Error ''task failed''))\<rparr>"
  let ?v = "exampleNodeWorld\<lparr>NodeRunTasks := (\<lambda>t m opts. Some (Error ''task failed''))\<rparr>"
  let ?m = "fst (FindDeletions exampleWorld)"
  let ?opts = "\<lparr>optConcurrency = 4, optMaxTaskDuration = 10 * Minute\<rparr>"
  let ?nm = "[(''kubelet'', []), (''LoadImage.0'', [])]"
  have mem: "EvRunTasks AWSAPITarget ?m ?opts \<in> set (trace (Run exampleCmd ?w))"
    by (simp add: Run_example_tasks_fail)
  have rt: "RunTasks ?w AWSAPITarget ?m ?opts \<noteq> None" by simp
  have nmem: "EvRunTasks (LocalTarget ''/var/cache/nodeup'') ?nm ?opts
                \<in> set (snd (NodeUpRun exampleNodeCmd ?v))"
    by (simp add: NodeUpRun_example_tasks_fail)
  have nrt: "NodeRunTasks ?v (LocalTarget ''/var/cache/nodeup'') ?nm ?opts \<noteq> None" by simp
  note th = tasks_failure_fails_run [of exampleCmd ?w exampleNodeCmd ?v]
  from th mem rt
  have a: "ended (Run exampleCmd ?w) = Returned (Some (Error ''error running tasks''))
        \<and> (\<forall>e\<in>set (trace (Run exampleCmd ?w)). \<not> isFinish e)"
    by blast
  then have b: "EvFinish AWSAPITarget ?m \<notin> set (trace (Run exampleCmd ?w))" by auto
  from th nmem nrt have c: "fst (NodeUpRun exampleNodeCmd ?v) = Exited" by blast
  show ?thesis
    using mem rt a b nmem c by (simp add: Run_example NodeUpRun_example)
qed


text \<open>
  C8. The lifecycles handed to the builders by \<open>ApplyClusterCmd.Run\<close> are a function of
  the phase, the target name and \<open>GetAssets\<close>: the empty phase leaves all three \<open>Sync\<close>;
  the network phase ignores security and cluster; the security phase expects the network to
  exist (warning on changes) and ignores the cluster; the cluster phase expects network and
  security to exist, warning on changes on a dry run and validating otherwise; any other
  phase is an error, with which the run returns before doing anything; and with \<open>GetAssets\<close>
  all three are \<open>Ignore\<close>, whatever the (known) phase. A run that gets past its first part
  uses exactly these lifecycles.
\<close>

theorem builderLifecycles_by_phase:
  "builderLifecycles PhaseEmpty t False =
     Inr \<lparr>securityLifecycle = LifecycleSync, networkLifecycle = LifecycleSync,
          clusterLifecycle = LifecycleSync\<rparr>
   \<and> builderLifecycles PhaseNetwork t False =
     Inr \<lparr>securityLifecycle = LifecycleIgnore, networkLifecycle = LifecycleSync,
          clusterLifecycle = LifecycleIgnore\<rparr>
   \<and> builderLifecycles PhaseSecurity t False =
     Inr \<lparr>securityLifecycle = LifecycleSync,
          networkLifecycle = LifecycleExistsAndWarnIfChanges,
          clusterLifecycle = LifecycleIgnore\<rparr>
   \<and> builderLifecycles PhaseCluster TargetDryRun False =
     Inr \<lparr>securityLifecycle = LifecycleExistsAndWarnIfChanges,
          networkLifecycle = LifecycleExistsAndWarnIfChanges,
          clusterLifecycle = LifecycleSync\<rparr>
   \<and> (t \<noteq> TargetDryRun \<longrightarrow>
        builderLifecycles PhaseCluster t False =
          Inr \<lparr>securityLifecycle = LifecycleExistsAndValidates,
               networkLifecycle = LifecycleExistsAndValidates,
               clusterLifecycle = LifecycleSync\<rparr>)
   \<and> builderLifecycles (PhaseOther x) t g = Inl (Error ''unknown phase'')
   \<and> ((\<forall>y. ph \<noteq> PhaseOther y) \<longrightarrow>
        builderLifecycles ph t True =
          Inr \<lparr>securityLifecycle = LifecycleIgnore, networkLifecycle = LifecycleIgnore,
               clusterLifecycle = LifecycleIgnore\<rparr>)
   \<and> (preflight c w = Inr p \<longrightarrow>
        builderLifecycles (Phase c) (TargetName c) (GetAssets c) = Inr (preLifecycles p))
   \<and> (Phase c' = PhaseOther x \<longrightarrow>
        (\<exists>e. ended (Run c' w') = Returned (Some e)) \<and> trace (Run c' w') = [])"
proof -
  have other: "(\<exists>e. ended (Run c' w') = Returned (Some e)) \<and> trace (Run c' w') = []"
    if "Phase c' = PhaseOther x"
    using that
    by (auto simp: Run_def preflight_def builderLifecycles_def phaseLifecycles_def
        split: sum.splits)
  have ign: "builderLifecycles ph t True =
          Inr \<lparr>securityLifecycle = LifecycleIgnore, networkLifecycle = LifecycleIgnore,
               clusterLifecycle = LifecycleIgnore\<rparr>" if "\<forall>y. ph \<noteq> PhaseOther y"
    using that by (cases ph) (auto simp: builderLifecycles_def phaseLifecycles_def Let_def)
  show ?thesis
    using other ign preflight_lifecycles [of c w p]
    by (simp add: builderLifecycles_def phaseLifecycles_def)
qed

text \<open>The table at the direct target and the security phase, and two runs of the example.\<close>

theorem builderLifecycles_by_phase_witness:
  "TargetDirect \<noteq> TargetDryRun
   \<and> builderLifecycles PhaseCluster TargetDirect False =
          Inr \<lparr>securityLifecycle = LifecycleExistsAndValidates,
               networkLifecycle = LifecycleExistsAndValidates,
               clusterLifecycle = LifecycleSync\<rparr>
   \<and> (\<forall>y. PhaseSecurity \<noteq> PhaseOther y)
   \<and> builderLifecycles PhaseSecurity TargetDirect True =
          Inr \<lparr>securityLifecycle = LifecycleIgnore, networkLifecycle = LifecycleIgnore,
               clusterLifecycle = LifecycleIgnore\<rparr>
   \<and> (\<exists>p. preflight exampleCmd exampleWorld = Inr p
          \<and> builderLifecycles (Phase exampleCmd) (TargetName exampleCmd) (GetAssets exampleCmd)
              = Inr (preLifecycles p))
   \<and> Phase (exampleCmd\<lparr>Phase := PhaseOther ''etcd''\<rparr>) = PhaseOther ''etcd''
   \<and> (\<exists>e. ended (Run (exampleCmd\<lparr>Phase := PhaseOther ''etcd''\<rparr>) exampleWorld)
            = Returned (Some e))"
  using builderLifecycles_by_phase [of TargetDirect "''etcd''" False PhaseSecurity
      exampleCmd exampleWorld _ "exampleCmd\<lparr>Phase := PhaseOther ''etcd''\<rparr>" exampleWorld]
    preflight_example [of TargetDirect]
  by (simp add: exampleCmd_def)

text \<open>
  C9. The state store is written (version marker, completed cluster spec, instance groups
  and their mirror) only when the target is not the dry run and the cluster lifecycle is not
  \<open>Ignore\<close>; and no such write happens from \<open>RunTasks\<close> on: they all come before it.
\<close>

theorem state_store_untouched:
  "(\<forall>e\<in>set (trace (Run c w)). isStateWrite e \<longrightarrow>
       TargetName c \<noteq> TargetDryRun
       \<and> (\<exists>l. builderLifecycles (Phase c) (TargetName c) (GetAssets c) = Inr l
              \<and> clusterLifecycle l \<noteq> LifecycleIgnore))
   \<and> (\<forall>e\<in>set (dropWhile (\<lambda>e. \<not> isRunTasks e) (trace (Run c w))). \<not> isStateWrite e)"
proof (cases rule: Run_cases [of c w])
  case (writeFailed p tasks s m fd e ws)
  have g: "TargetName c \<noteq> TargetDryRun" "clusterLifecycle (preLifecycles p) \<noteq> LifecycleIgnore"
    using writeFailed selectTarget_Inr [of c w p s] by auto
  have ws: "\<forall>e\<in>set ws. \<not> isRunTasks e"
    using guarded_writes(2) [of True w "preGroups p" "Some e" ws] writeFailed by simp
  show ?thesis
    unfolding writeFailed(9) deletions_flag(1) [OF writeFailed(3,4)]
    using g ws preflight_lifecycles [OF writeFailed(1)] by (simp add: dropWhile_all)
next
  case (tasksFailed p tasks s m fd ws e)
  note gw = guarded_writes [OF tasksFailed(6)]
  have g: "ws \<noteq> [] \<Longrightarrow> TargetName c \<noteq> TargetDryRun
             \<and> clusterLifecycle (preLifecycles p) \<noteq> LifecycleIgnore"
    using gw(9) selectTarget_Inr [OF tasksFailed(3)] by auto
  show ?thesis
    unfolding tasksFailed(8) deletions_flag(1) [OF tasksFailed(3,4)]
    using g gw(1,2) preflight_lifecycles [OF tasksFailed(1)]
    by (cases "ws = []") (auto simp: dropWhile_all)
next
  case (finished p tasks s m fd ws)
  note gw = guarded_writes [OF finished(6)]
  have g: "ws \<noteq> [] \<Longrightarrow> TargetName c \<noteq> TargetDryRun
             \<and> clusterLifecycle (preLifecycles p) \<noteq> LifecycleIgnore"
    using gw(9) selectTarget_Inr [OF finished(3)] by auto
  show ?thesis
    unfolding finished(8) deletions_flag(1) [OF finished(3,4)]
    using g gw(1,2) preflight_lifecycles [OF finished(1)] precreate_kinds(1) [of w p s]
    by (cases "ws = []") (auto simp: dropWhile_all)
qed (auto split: if_splits)

text \<open>The example run writes the version marker, and it is a direct run of a full apply.\<close>

theorem state_store_untouched_witness:
  "isStateWrite EvWriteKopsVersion
   \<and> EvWriteKopsVersion \<in> set (trace (Run exampleCmd exampleWorld))
   \<and> TargetName exampleCmd \<noteq> TargetDryRun
   \<and> (\<exists>l. builderLifecycles (Phase exampleCmd) (TargetName exampleCmd) (GetAssets exampleCmd)
            = Inr l \<and> clusterLifecycle l \<noteq> LifecycleIgnore)
   \<and> EvFinish AWSAPITarget (fst (FindDeletions exampleWorld))
        \<in> set (dropWhile (\<lambda>e. \<not> isRunTasks e) (trace (Run exampleCmd exampleWorld)))
   \<and> \<not> isStateWrite (EvFinish AWSAPITarget (fst (FindDeletions exampleWorld)))"
  using state_store_untouched [of exampleCmd exampleWorld]
  by (simp add: Run_example)

text \<open>
  C10. What DNS pre-creation answers never changes how the run ends. When pre-creation is
  attempted, \<open>Finish\<close> is called after it, the target is the direct one, the cluster name is
  not a gossip name and the cluster lifecycle is not \<open>Ignore\<close>; its error shows as a warning
  and nowhere else.
\<close>

theorem precreateDNS_never_fails_run:
  "ended (Run c (w\<lparr>precreateDNS := r\<rparr>)) = ended (Run c w)
   \<and> (EvPrecreateDNS \<in> set (trace (Run c w)) \<longrightarrow>
        (\<exists>t m. EvFinish t m \<in> set (dropWhile (\<lambda>e. e \<noteq> EvPrecreateDNS) (trace (Run c w))))
        \<and> TargetName c = TargetDirect
        \<and> (\<exists>p. preflight c w = Inr p
               \<and> \<not> IsGossipHostname w (Name (preCluster p))
               \<and> clusterLifecycle (preLifecycles p) \<noteq> LifecycleIgnore))
   \<and> (EvWarning ''unable to pre-create DNS records'' \<in> set (trace (Run c w)) \<longleftrightarrow>
        EvPrecreateDNS \<in> set (trace (Run c w)) \<and> precreateDNS w \<noteq> None)"
proof -
  have "(EvPrecreateDNS \<in> set (trace (Run c w)) \<longrightarrow>
        (\<exists>t m. EvFinish t m \<in> set (dropWhile (\<lambda>e. e \<noteq> EvPrecreateDNS) (trace (Run c w))))
        \<and> TargetName c = TargetDirect
        \<and> (\<exists>p. preflight c w = Inr p
               \<and> \<not> IsGossipHostname w (Name (preCluster p))
               \<and> clusterLifecycle (preLifecycles p) \<noteq> LifecycleIgnore))
   \<and> (EvWarning ''unable to pre-create DNS records'' \<in> set (trace (Run c w)) \<longleftrightarrow>
        EvPrecreateDNS \<in> set (trace (Run c w)) \<and> precreateDNS w \<noteq> None)"
  proof (cases rule: Run_cases [of c w])
    case (writeFailed p tasks s m fd e ws)
    have "\<forall>e\<in>set ws. isStateWrite e"
      using guarded_writes(1) [of True w "preGroups p" "Some e" ws] writeFailed by simp
    then have "EvPrecreateDNS \<notin> set ws" "\<forall>x. EvWarning x \<notin> set ws" by auto
    then show ?thesis
      unfolding writeFailed(9) deletions_flag(1) [OF writeFailed(3,4)] by simp
  next
    case (tasksFailed p tasks s m fd ws e)
    have "\<forall>e\<in>set ws. isStateWrite e" using guarded_writes(1) [OF tasksFailed(6)] .
    then have "EvPrecreateDNS \<notin> set ws" "\<forall>x. EvWarning x \<notin> set ws" by auto
    then show ?thesis
      unfolding tasksFailed(8) deletions_flag(1) [OF tasksFailed(3,4)] by simp
  next
    case (finished p tasks s m fd ws)
    let ?warn = "EvWarning ''unable to pre-create DNS records''"
    let ?pre = "EvBuildTasks # fd @ EvNewContext (selTarget s) (selCheckExisting s) m # ws
                  @ [EvRunTasks (selTarget s) m (taskOptions c w)]"
    have w: "\<forall>e\<in>set ws. isStateWrite e" using guarded_writes(1) [OF finished(6)] .
    have tr: "trace (Run c w) =
                ?pre @ precreate w p s @ [EvFinish (selTarget s) m, EvContextClose]"
      by (simp add: finished(8))
    have pre: "\<forall>e\<in>set ?pre. e \<noteq> EvPrecreateDNS" "?warn \<notin> set ?pre"
      using w unfolding deletions_flag(1) [OF finished(3,4)] by auto
    have A: "EvPrecreateDNS \<in> set (trace (Run c w)) \<longleftrightarrow> EvPrecreateDNS \<in> set (precreate w p s)"
      unfolding tr using pre(1) by auto
    have B: "?warn \<in> set (trace (Run c w)) \<longleftrightarrow> ?warn \<in> set (precreate w p s)"
      unfolding tr using pre(2) by auto
    have B': "?warn \<in> set (precreate w p s) \<longleftrightarrow>
                EvPrecreateDNS \<in> set (precreate w p s) \<and> precreateDNS w \<noteq> None"
      by (auto simp: precreate_def split: option.splits)
    have C: "EvFinish (selTarget s) m
               \<in> set (dropWhile (\<lambda>e. e \<noteq> EvPrecreateDNS) (trace (Run c w)))"
      if "EvPrecreateDNS \<in> set (precreate w p s)"
    proof -
      have "dropWhile (\<lambda>e. e \<noteq> EvPrecreateDNS) (trace (Run c w)) =
              dropWhile (\<lambda>e. e \<noteq> EvPrecreateDNS)
                (precreate w p s @ [EvFinish (selTarget s) m, EvContextClose])"
        unfolding tr using pre(1) by (rule dropWhile_all)
      also have "\<dots> = precreate w p s @ [EvFinish (selTarget s) m, EvContextClose]"
        using that by (auto simp: precreate_def split: option.splits if_splits)
      finally show ?thesis by simp
    qed
    have D: "TargetName c = TargetDirect \<and> \<not> IsGossipHostname w (Name (preCluster p))
               \<and> clusterLifecycle (preLifecycles p) \<noteq> LifecycleIgnore"
      if "EvPrecreateDNS \<in> set (precreate w p s)"
      using that precreate_attempted [of w p s] selectTarget_Inr [OF finished(3)] by simp
    show ?thesis
      unfolding A B B' using C D finished(1) by blast
  qed (auto split: if_splits)
  then show ?thesis using Run_precreateDNS [of c r w] by simp
qed

text \<open>
  In the example, throttled DNS pre-creation leaves a warning and the run succeeds.
\<close>

theorem precreateDNS_never_fails_run_witness:
  "ended (Run exampleCmd (exampleWorld\<lparr>precreateDNS := Some (Error ''throttled'')\<rparr>))
     = Returned None
   \<and> EvPrecreateDNS
        \<in> set (trace (Run exampleCmd (exampleWorld\<lparr>precreateDNS := Some (Error ''throttled'')\<rparr>)))
   \<and> TargetName exampleCmd = TargetDirect
   \<and> EvWarning ''unable to pre-create DNS records''
        \<in> set (trace (Run exampleCmd (exampleWorld\<lparr>precreateDNS := Some (Error ''throttled'')\<rparr>)))"
proof -
  let ?w = "exampleWorld\<lparr>precreateDNS := Some (Error ''throttled'')\<rparr>"
  have mem: "EvPrecreateDNS \<in> set (trace (Run exampleCmd ?w))"
    by (simp add: Run_example_dnsfail)
  have "ended (Run exampleCmd ?w) = ended (Run exampleCmd exampleWorld)"
    using precreateDNS_never_fails_run [of exampleCmd "Some (Error ''throttled'')" exampleWorld]
    by simp
  moreover have "TargetName exampleCmd = TargetDirect
      \<and> EvWarning ''unable to pre-create DNS records'' \<in> set (trace (Run exampleCmd ?w))"
    using precreateDNS_never_fails_run [of exampleCmd None ?w] mem
    by (simp add: exampleWorld_def)
  ultimately show ?thesis using mem by (simp add: Run_example)
qed







text \<open>
  C5. For a valid task set (unique names, every reference a task of the set) whose
  dependency graph has no cycle, the Resolver returns an order: it holds every task exactly
  once, and every task a dependant depends on comes before the dependant.
\<close>

theorem resolve_topological_order:
  assumes "distinct (map fst tasks)"
    and "\<forall>t\<in>set tasks. set (snd t) \<subseteq> fst ` set tasks"
    and "acyclic (edges tasks)"
  shows "\<exists>order. resolve tasks = Inr order
           \<and> set order = fst ` set tasks \<and> distinct order
           \<and> (\<forall>t\<in>set tasks. \<forall>d\<in>set (snd t). appearsBefore order d (fst t))"
proof -
  have "findDuplicate (map fst tasks) = None" using assms(1) by (simp add: findDuplicate_None)
  moreover have "findUnresolved (map fst tasks) tasks = None"
    using assms(2) by (simp add: findUnresolved_None)
  moreover obtain order where "orderTasks [] tasks = Inr order"
    using orderTasks_complete [of tasks "[]"] assms by auto
  ultimately have "resolve tasks = Inr order" by (simp add: resolve_def)
  with resolve_Inr [of tasks order] show ?thesis by blast
qed

text \<open>The instance, its subnet and its VPC are ordered VPC, subnet, instance.\<close>

theorem resolve_topological_order_witness:
  "distinct (map fst exampleTasks)
   \<and> set (snd (''Instance'', [''Subnet''])) \<subseteq> fst ` set exampleTasks
   \<and> set (snd (''Subnet'', [''VPC''])) \<subseteq> fst ` set exampleTasks
   \<and> acyclic (edges exampleTasks)
   \<and> resolve exampleTasks = Inr [''VPC'', ''Subnet'', ''Instance'']
   \<and> appearsBefore [''VPC'', ''Subnet'', ''Instance''] ''VPC'' ''Subnet''
   \<and> appearsBefore [''VPC'', ''Subnet'', ''Instance''] ''Subnet'' ''Instance''"
proof -
  have d: "distinct (map fst exampleTasks)" by (simp add: exampleTasks_def)
  have u: "\<forall>t\<in>set exampleTasks. set (snd t) \<subseteq> fst ` set exampleTasks"
    by (simp add: exampleTasks_def)
  have "length b < length a" if "(a, b) \<in> edges exampleTasks" for a b
    using that by (auto simp: edges_def exampleTasks_def)
  then have a: "acyclic (edges exampleTasks)" by (rule acyclicI_order)
  from resolve_topological_order [OF d u a] resolve_exampleTasks
  have "\<forall>t\<in>set exampleTasks. \<forall>d\<in>set (snd t).
          appearsBefore [''VPC'', ''Subnet'', ''Instance''] d (fst t)"
    by auto
  then have "appearsBefore [''VPC'', ''Subnet'', ''Instance''] ''VPC'' ''Subnet''
      \<and> appearsBefore [''VPC'', ''Subnet'', ''Instance''] ''Subnet'' ''Instance''"
    by (simp add: exampleTasks_def)
  with d u a resolve_exampleTasks show ?thesis by (simp add: exampleTasks_def)
qed

text \<open>
  C6. For a task set with a reference cycle, graph construction returns (the ordering loop
  is a total function, its termination proved with its definition) and what it returns is a
  build-time error; the engine hands this error on without having executed any task, so no
  change has been made, and nothing is tried again. When the names are unique and the
  references resolve, the error is the dependency cycle, and it names the tasks on the cycle.
\<close>

theorem cycle_fails_build:
  assumes "(n, n) \<in> (edges tasks)\<^sup>+"
  shows "(\<exists>e. resolve tasks = Inl e \<and> runEngine tasks render = Inl e)
         \<and> (distinct (map fst tasks) \<and> (\<forall>t\<in>set tasks. set (snd t) \<subseteq> fst ` set tasks) \<longrightarrow>
              (\<exists>ms. resolve tasks = Inl (DependencyCycle ms) \<and> n \<in> set ms
                 \<and> set ms \<subseteq> fst ` set tasks))"
proof -
  have no: "resolve tasks \<noteq> Inr order" for order
  proof
    assume r: "resolve tasks = Inr order"
    let ?f = "\<lambda>x. length (takeWhile (\<lambda>y. y \<noteq> x) order)"
    have "?f b < ?f a" if "(a, b) \<in> edges tasks" for a b
    proof -
      from that obtain ds where "(a, ds) \<in> set tasks" "b \<in> set ds" by (auto simp: edges_def)
      with resolve_Inr [OF r] have "appearsBefore order b a" by fastforce
      then show ?thesis by (rule position_decreases)
    qed
    then have "acyclic (edges tasks)" by (rule acyclicI_order)
    with assms show False by (simp add: acyclic_def)
  qed
  then obtain e where e: "resolve tasks = Inl e" by (cases "resolve tasks") auto
  then have first: "\<exists>e. resolve tasks = Inl e \<and> runEngine tasks render = Inl e"
    by (simp add: runEngine_def)
  have second: "\<exists>ms. resolve tasks = Inl (DependencyCycle ms) \<and> n \<in> set ms
                  \<and> set ms \<subseteq> fst ` set tasks"
    if d: "distinct (map fst tasks)" and u: "\<forall>t\<in>set tasks. set (snd t) \<subseteq> fst ` set tasks"
  proof -
    have "findDuplicate (map fst tasks) = None" using d by (simp add: findDuplicate_None)
    moreover have "findUnresolved (map fst tasks) tasks = None"
      using u by (simp add: findUnresolved_None)
    ultimately have o: "orderTasks [] tasks = Inl e" using e by (simp add: resolve_def)
    from orderTasks_Inl [OF o] obtain ms where ms: "e = DependencyCycle ms"
        "set ms \<subseteq> fst ` set tasks"
      by blast
    have "n \<in> set ms"
      using orderTasks_names_cycle [of "[]" tasks ms n] o ms(1) d assms by simp
    with e ms show ?thesis by blast
  qed
  from first second show ?thesis by blast
qed

text \<open>With the VPC referring back to the instance, all three tasks are named in the error.\<close>

theorem cycle_fails_build_witness:
  "(''VPC'', ''VPC'') \<in> (edges cyclicTasks)\<^sup>+
   \<and> resolve cyclicTasks = Inl (DependencyCycle [''Instance'', ''VPC'', ''Subnet''])
   \<and> runEngine cyclicTasks (\<lambda>n. [n]) = Inl (DependencyCycle [''Instance'', ''VPC'', ''Subnet''])
   \<and> distinct (map fst cyclicTasks)
   \<and> ''VPC'' \<in> set [''Instance'', ''VPC'', ''Subnet'']"
proof -
  have e1: "(''VPC'', ''Instance'') \<in> edges cyclicTasks"
    and e2: "(''Instance'', ''Subnet'') \<in> edges cyclicTasks"
    and e3: "(''Subnet'', ''VPC'') \<in> edges cyclicTasks"
    by (auto simp: edges_def cyclicTasks_def)
  have cyc: "(''VPC'', ''VPC'') \<in> (edges cyclicTasks)\<^sup>+"
    using e1 e2 e3 by (meson trancl.simps)
  have d: "distinct (map fst cyclicTasks)" by (simp add: cyclicTasks_def)
  have u: "\<forall>t\<in>set cyclicTasks. set (snd t) \<subseteq> fst ` set cyclicTasks"
    by (simp add: cyclicTasks_def)
  from cycle_fails_build [OF cyc, of "\<lambda>n. [n]"] resolve_cyclicTasks d u
  have "runEngine cyclicTasks (\<lambda>n. [n]) = Inl (DependencyCycle [''Instance'', ''VPC'', ''Subnet''])
        \<and> ''VPC'' \<in> set [''Instance'', ''VPC'', ''Subnet'']"
    by auto
  with cyc d u resolve_cyclicTasks show ?thesis by simp
qed



end
